theory Spec2Isabelle
  imports Complex_Main
begin

section \<open>The dashboard's two loaders (dashboard.py)\<close>

text \<open>
  The program is a Streamlit page. Its only logic is in \<^verbatim>\<open>load_keuangan_data\<close>,
  \<^verbatim>\<open>load_gps_data\<close> and the guard at the head of \<^verbatim>\<open>main\<close>. Both loaders are
  chains of pandas calls on a DataFrame, wrapped in \<^verbatim>\<open>try ... except Exception\<close>.
  This theory models the DataFrame as a record of an index and a list of labelled
  columns, each pandas call the loaders make as a function on it, exceptions as the
  left summand of a sum, and the Streamlit calls as a list of events.

  What is abstracted:
  \<^item> \<^verbatim>\<open>pd.read_csv\<close> is not modelled. Its outcome (an exception or a frame) is the
    input of the loaders. A cell of that frame is missing (NaN), a text, or a number
    of a column that \<^verbatim>\<open>read_csv\<close> has typed int64 or float64. Such a number is
    known by the text Python's \<^verbatim>\<open>str\<close> prints for it (\<^verbatim>\<open>1000.0\<close> for the file's
    \<^verbatim>\<open>1000\<close> in a float64 column): that text is what \<^verbatim>\<open>astype(str)\<close> hands to the
    later steps. Which cells \<^verbatim>\<open>read_csv\<close> types as numbers is not modelled.
  \<^item> Numbers are exact: a parsed decimal literal is the rational it denotes, and the
    two infinities are values of their own. Rounding to float64 and overflow are not
    modelled.
  \<^item> Characters are bytes; \<^verbatim>\<open>strip\<close> and \<^verbatim>\<open>lower\<close> are modelled on ASCII.
  \<^item> Month names are those of the C locale; timestamps have nanosecond resolution
    (the bounds of \<^verbatim>\<open>datetime64[ns]\<close>).
  \<^item> \<^verbatim>\<open>st.cache_data\<close> (memoisation) is left out.
\<close>

subsection \<open>Python string methods\<close>

definition is_digit :: "char \<Rightarrow> bool" where
  "is_digit c = (48 \<le> (of_char c :: nat) \<and> (of_char c :: nat) \<le> 57)"

definition digit_val :: "char \<Rightarrow> nat" where
  "digit_val c = of_char c - 48"

definition digits_val :: "string \<Rightarrow> nat" where
  "digits_val ds = foldl (\<lambda>a c. 10 * a + digit_val c) 0 ds"

text \<open>Whitespace of \<^verbatim>\<open>str.strip()\<close>, within ASCII: tab, the four line controls, the
  four separators 28 to 31, and the space.\<close>

definition py_isspace :: "char \<Rightarrow> bool" where
  "py_isspace c = (let n = (of_char c :: nat) in (9 \<le> n \<and> n \<le> 13) \<or> (28 \<le> n \<and> n \<le> 32))"

definition str_strip :: "string \<Rightarrow> string" where
  "str_strip s = rev (dropWhile py_isspace (rev (dropWhile py_isspace s)))"

definition lower_char :: "char \<Rightarrow> char" where
  "lower_char c =
     (case map_of (zip ''ABCDEFGHIJKLMNOPQRSTUVWXYZ'' ''abcdefghijklmnopqrstuvwxyz'') c of
        Some l \<Rightarrow> l
      | None \<Rightarrow> c)"

definition str_lower :: "string \<Rightarrow> string" where
  "str_lower s = map lower_char s"

text \<open>\<^verbatim>\<open>Series.str.replace(pat, repl)\<close> with a literal pattern: the occurrences of
  \<open>pat\<close> are replaced from left to right, without overlap. The loaders call it with
  \<^verbatim>\<open>'Rp'\<close>, \<^verbatim>\<open>'.'\<close> and \<^verbatim>\<open>','\<close>: pandas takes a one-character pattern
  literally, and \<^verbatim>\<open>'Rp'\<close> means the same as a regular expression.\<close>

fun str_replace :: "string \<Rightarrow> string \<Rightarrow> string \<Rightarrow> string" where
  "str_replace pat repl [] = []"
| "str_replace pat repl (c # cs) =
     (if pat \<noteq> [] \<and> take (length pat) (c # cs) = pat
      then repl @ str_replace pat repl (drop (length pat) (c # cs))
      else c # str_replace pat repl cs)"

subsection \<open>Dates: \<^verbatim>\<open>pd.to_datetime(..., format='%d/%m/%Y', errors='coerce')\<close>\<close>

record date =
  year :: nat
  month :: nat
  day :: nat

definition is_leap :: "nat \<Rightarrow> bool" where
  "is_leap y = (y mod 4 = 0 \<and> (y mod 100 \<noteq> 0 \<or> y mod 400 = 0))"

definition days_in_month :: "nat \<Rightarrow> nat \<Rightarrow> nat" where
  "days_in_month y m =
     (if m = 2 then (if is_leap y then 29 else 28)
      else if m = 4 \<or> m = 6 \<or> m = 9 \<or> m = 11 then 30
      else 31)"

text \<open>A calendar date that a nanosecond timestamp can hold: midnight of 1677-09-22 to
  midnight of 2262-04-11.\<close>

definition in_ns_bounds :: "date \<Rightarrow> bool" where
  "in_ns_bounds d =
     ((1677 < year d \<or> (year d = 1677 \<and> (9 < month d \<or> (month d = 9 \<and> 22 \<le> day d)))) \<and>
      (year d < 2262 \<or> (year d = 2262 \<and> (month d < 4 \<or> (month d = 4 \<and> day d \<le> 11)))))"

definition valid_date :: "date \<Rightarrow> bool" where
  "valid_date d =
     (1 \<le> month d \<and> month d \<le> 12 \<and> 1 \<le> day d \<and> day d \<le> days_in_month (year d) (month d) \<and>
      in_ns_bounds d)"

text \<open>The directives as the regular expressions of strptime:
  \<^verbatim>\<open>%d = 3[0-1]|[1-2]\d|0[1-9]|[1-9]| [1-9]\<close>,
  \<^verbatim>\<open>%m = 1[0-2]|0[1-9]|[1-9]\<close>, \<^verbatim>\<open>%Y = \d\d\d\d\<close>.\<close>

definition is_digit19 :: "char \<Rightarrow> bool" where
  "is_digit19 c = (is_digit c \<and> c \<noteq> CHR ''0'')"

fun parse_d :: "string \<Rightarrow> nat option" where
  "parse_d [a] = (if is_digit19 a then Some (digit_val a) else None)"
| "parse_d [a, b] =
     (if a = CHR ''3'' \<and> (b = CHR ''0'' \<or> b = CHR ''1'') then Some (30 + digit_val b)
      else if (a = CHR ''1'' \<or> a = CHR ''2'') \<and> is_digit b then Some (10 * digit_val a + digit_val b)
      else if (a = CHR ''0'' \<or> a = CHR '' '') \<and> is_digit19 b then Some (digit_val b)
      else None)"
| "parse_d _ = None"

fun parse_m :: "string \<Rightarrow> nat option" where
  "parse_m [a] = (if is_digit19 a then Some (digit_val a) else None)"
| "parse_m [a, b] =
     (if a = CHR ''1'' \<and> (b = CHR ''0'' \<or> b = CHR ''1'' \<or> b = CHR ''2'') then Some (10 + digit_val b)
      else if a = CHR ''0'' \<and> is_digit19 b then Some (digit_val b)
      else None)"
| "parse_m _ = None"

definition parse_Y :: "string \<Rightarrow> nat option" where
  "parse_Y s = (if length s = 4 \<and> list_all is_digit s then Some (digits_val s) else None)"

fun split_on :: "char \<Rightarrow> string \<Rightarrow> string list" where
  "split_on sep [] = [[]]"
| "split_on sep (c # cs) =
     (case split_on sep cs of
        [] \<Rightarrow> [[c]]
      | p # ps \<Rightarrow> if c = sep then [] # p # ps else (c # p) # ps)"

text \<open>The whole text must match day, slash, month, slash, year; the date must exist and
  fit a nanosecond timestamp. Anything else is coerced to NaT (\<open>None\<close>).\<close>

definition strptime_dmY :: "string \<Rightarrow> date option" where
  "strptime_dmY s =
     (case split_on CHR ''/'' s of
        [ds, ms, ys] \<Rightarrow>
          (case (parse_d ds, parse_m ms, parse_Y ys) of
             (Some d, Some m, Some y) \<Rightarrow>
               (let dt = \<lparr>year = y, month = m, day = d\<rparr>
                in if valid_date dt then Some dt else None)
           | _ \<Rightarrow> None)
      | _ \<Rightarrow> None)"

text \<open>\<^verbatim>\<open>strftime('%Y-%m (%B)')\<close>.\<close>

definition digit_char :: "nat \<Rightarrow> char" where
  "digit_char n = ''0123456789'' ! (n mod 10)"

definition month_name :: "nat \<Rightarrow> string" where
  "month_name m =
     (if m = 1 then ''January'' else if m = 2 then ''February'' else if m = 3 then ''March''
      else if m = 4 then ''April'' else if m = 5 then ''May'' else if m = 6 then ''June''
      else if m = 7 then ''July'' else if m = 8 then ''August'' else if m = 9 then ''September''
      else if m = 10 then ''October'' else if m = 11 then ''November'' else ''December'')"

definition strftime_Ym_B :: "date \<Rightarrow> string" where
  "strftime_Ym_B d =
     [digit_char (year d div 1000), digit_char (year d div 100), digit_char (year d div 10),
      digit_char (year d)] @ ''-'' @ [digit_char (month d div 10), digit_char (month d)] @
     '' ('' @ month_name (month d) @ '')''"

subsection \<open>Numbers: \<^verbatim>\<open>pd.to_numeric(..., errors='coerce')\<close> on text\<close>

datatype num = Fin rat | PosInf | NegInf

definition num_nonneg :: "num \<Rightarrow> bool" where
  "num_nonneg v = (case v of Fin q \<Rightarrow> 0 \<le> q | PosInf \<Rightarrow> True | NegInf \<Rightarrow> False)"

text \<open>\<^verbatim>\<open>Series.between(lo, hi)\<close>, both ends included.\<close>

definition between :: "rat \<Rightarrow> rat \<Rightarrow> num \<Rightarrow> bool" where
  "between lo hi v = (case v of Fin q \<Rightarrow> lo \<le> q \<and> q \<le> hi | PosInf \<Rightarrow> False | NegInf \<Rightarrow> False)"

text \<open>Whitespace of the C parser: tab, newline, vertical tab, form feed, return, space.\<close>

definition c_isspace :: "char \<Rightarrow> bool" where
  "c_isspace c = (let n = (of_char c :: nat) in (9 \<le> n \<and> n \<le> 13) \<or> n = 32)"

definition take_sign :: "string \<Rightarrow> bool \<times> string" where
  "take_sign s =
     (case s of
        [] \<Rightarrow> (False, [])
      | c # r \<Rightarrow> if c = CHR ''-'' then (True, r) else if c = CHR ''+'' then (False, r) else (False, s))"

text \<open>The exponent part: absent (exponent 0), or \<^verbatim>\<open>e\<close>/\<^verbatim>\<open>E\<close>, a sign and at least
  one digit. An \<^verbatim>\<open>e\<close> with no digit is not consumed, so the text does not parse.\<close>

definition take_exponent :: "string \<Rightarrow> (int \<times> string) option" where
  "take_exponent s =
     (case s of
        [] \<Rightarrow> Some (0, [])
      | c # r \<Rightarrow>
          if c = CHR ''e'' \<or> c = CHR ''E'' then
            (let (neg, r2) = take_sign r; ds = takeWhile is_digit r2
             in if ds = [] then None
                else Some (if neg then - int (digits_val ds) else int (digits_val ds),
                           dropWhile is_digit r2))
          else Some (0, s))"

definition scale10 :: "rat \<Rightarrow> int \<Rightarrow> rat" where
  "scale10 q e = (if 0 \<le> e then q * 10 ^ nat e else q / 10 ^ nat (- e))"

text \<open>The decimal literals the parser takes: blanks, a sign, digits, a point and digits
  (one digit at least in all), an exponent, blanks.\<close>

definition parse_decimal :: "string \<Rightarrow> rat option" where
  "parse_decimal s =
     (let (neg, s2) = take_sign (dropWhile c_isspace s);
          ip = takeWhile is_digit s2;
          s3 = dropWhile is_digit s2;
          (fp, s4) = (case s3 of
                        [] \<Rightarrow> ([], [])
                      | c # r \<Rightarrow> if c = CHR ''.'' then (takeWhile is_digit r, dropWhile is_digit r)
                                 else ([], s3))
      in if ip = [] \<and> fp = [] then None
         else (case take_exponent s4 of
                 None \<Rightarrow> None
               | Some (e, s5) \<Rightarrow>
                   if dropWhile c_isspace s5 = [] then
                     Some (scale10 ((if neg then - 1 else 1) * of_nat (digits_val (ip @ fp)))
                             (e - int (length fp)))
                   else None))"

definition to_numeric :: "string \<Rightarrow> num option" where
  "to_numeric s =
     (case parse_decimal s of
        Some q \<Rightarrow> Some (Fin q)
      | None \<Rightarrow>
          (let l = str_lower s
           in if l = ''inf'' \<or> l = ''+inf'' \<or> l = ''infinity'' \<or> l = ''+infinity'' then Some PosInf
              else if l = ''-inf'' \<or> l = ''-infinity'' then Some NegInf
              else None))"

subsection \<open>DataFrames\<close>

text \<open>A cell of a frame: missing (NaN, NaT), a text, a number or a timestamp.\<close>

text \<open>A cell of the frame \<^verbatim>\<open>read_csv\<close> returns: missing, a text, or a number of a
  numeric column, given by what \<^verbatim>\<open>str\<close> prints for it.\<close>

datatype csv_cell = Missing | Str string | CsvNumber string

text \<open>A cell of a frame while the loaders work on it: missing (NaN, NaT), a text, a
  number as read (still known by its printed text), a number that \<^verbatim>\<open>to_numeric\<close> has
  parsed, or a timestamp.\<close>

datatype cell = NA | Text string | Numeric string | Number num | Timestamp date

text \<open>A frame is its row index and its labelled columns, in order. Labels can repeat:
  two headers that differ in case or blanks, or two aliases of one name, give two columns
  with one label.\<close>

record 'c frame =
  index :: "nat list"
  cols :: "(string \<times> 'c list) list"

definition labels :: "'c frame \<Rightarrow> string list" where
  "labels df = map fst (cols df)"

text \<open>The frame \<^verbatim>\<open>read_csv\<close> returns, as the loaders receive it.\<close>

definition object_cell :: "csv_cell \<Rightarrow> cell" where
  "object_cell x = (case x of Missing \<Rightarrow> NA | Str s \<Rightarrow> Text s | CsvNumber r \<Rightarrow> Numeric r)"

definition object_cells :: "csv_cell frame \<Rightarrow> cell frame" where
  "object_cells raw =
     \<lparr>index = index raw, cols = map (\<lambda>(h, c). (h, map object_cell c)) (cols raw)\<rparr>"

datatype exn =
    ReadError string
  | KeyError string
  | ValueError string
  | AttributeError string
  | UnboundLocalError string

text \<open>\<^verbatim>\<open>str(e)\<close>. A \<^verbatim>\<open>KeyError\<close> prints its key in quotes; \<open>ReadError m\<close> is whatever
  \<^verbatim>\<open>read_csv\<close> raised, with \<open>m\<close> its text.\<close>

definition str_exn :: "exn \<Rightarrow> string" where
  "str_exn e =
     (case e of
        ReadError m \<Rightarrow> m
      | KeyError k \<Rightarrow> [CHR 0x27] @ k @ [CHR 0x27]
      | ValueError m \<Rightarrow> m
      | AttributeError m \<Rightarrow> m
      | UnboundLocalError v \<Rightarrow> v)"

definition and_then :: "exn + 'a \<Rightarrow> ('a \<Rightarrow> exn + 'b) \<Rightarrow> exn + 'b" where
  "and_then m f = (case m of Inl e \<Rightarrow> Inl e | Inr x \<Rightarrow> f x)"

text \<open>\<^verbatim>\<open>for col in [...]\<close>: the body runs on each name in turn; an exception ends the loop.\<close>

fun for_each :: "('a \<Rightarrow> 's \<Rightarrow> exn + 's) \<Rightarrow> 'a list \<Rightarrow> 's \<Rightarrow> exn + 's" where
  "for_each body [] s = Inr s"
| "for_each body (x # xs) s = and_then (body x s) (for_each body xs)"

text \<open>\<^verbatim>\<open>df.columns = df.columns.str.strip().str.lower()\<close>\<close>

definition normalise_columns :: "'c frame \<Rightarrow> 'c frame" where
  "normalise_columns df = df\<lparr>cols := map (\<lambda>(h, c). (str_lower (str_strip h), c)) (cols df)\<rparr>"

text \<open>\<^verbatim>\<open>df.rename(columns=mapping)\<close>\<close>

definition rename_label :: "(string \<times> string) list \<Rightarrow> string \<Rightarrow> string" where
  "rename_label mapping h = (case map_of mapping h of Some h' \<Rightarrow> h' | None \<Rightarrow> h)"

definition rename_columns :: "(string \<times> string) list \<Rightarrow> 'c frame \<Rightarrow> 'c frame" where
  "rename_columns mapping df = df\<lparr>cols := map (\<lambda>(h, c). (rename_label mapping h, c)) (cols df)\<rparr>"

text \<open>\<^verbatim>\<open>df[k]\<close>: a Series when one column has the label, a DataFrame when several
  have it, \<^verbatim>\<open>KeyError\<close> when none has.\<close>

datatype 'c selection = NoColumn | Series "'c list" | SubFrame "'c list list"

definition named :: "string \<Rightarrow> 'c frame \<Rightarrow> 'c list list" where
  "named k df = map snd (filter (\<lambda>(h, c). h = k) (cols df))"

definition getitem :: "'c frame \<Rightarrow> string \<Rightarrow> 'c selection" where
  "getitem df k =
     (case named k df of
        [] \<Rightarrow> NoColumn
      | [c] \<Rightarrow> Series c
      | c # c' # cs \<Rightarrow> SubFrame (c # c' # cs))"

text \<open>\<^verbatim>\<open>df[k] = series\<close>: the column labelled \<open>k\<close> takes the new cells where it stands;
  a new label is appended.\<close>

definition setitem :: "'c frame \<Rightarrow> string \<Rightarrow> 'c list \<Rightarrow> 'c frame" where
  "setitem df k v =
     (if k \<in> set (labels df)
      then df\<lparr>cols := map (\<lambda>(h, c). if h = k then (h, v) else (h, c)) (cols df)\<rparr>
      else df\<lparr>cols := cols df @ [(k, v)]\<rparr>)"

text \<open>Boolean indexing \<^verbatim>\<open>df[mask]\<close>: the rows whose mask is true, in the index and in
  every column.\<close>

definition compress :: "bool list \<Rightarrow> 'a list \<Rightarrow> 'a list" where
  "compress keep xs = map fst (filter snd (zip xs keep))"

definition select_rows :: "bool list \<Rightarrow> 'c frame \<Rightarrow> 'c frame" where
  "select_rows keep df =
     \<lparr>index = compress keep (index df), cols = map (\<lambda>(h, c). (h, compress keep c)) (cols df)\<rparr>"

definition notna :: "cell \<Rightarrow> bool" where
  "notna x = (x \<noteq> NA)"

text \<open>The mask of \<^verbatim>\<open>dropna\<close> over \<open>n\<close> rows and the columns \<open>cs\<close>: row \<open>i\<close> stays when
  each of the columns holds a value there.\<close>

definition notna_mask :: "cell list list \<Rightarrow> nat \<Rightarrow> bool list" where
  "notna_mask cs n = map (\<lambda>i. list_all (\<lambda>c. i < length c \<and> notna (c ! i)) cs) [0 ..< n]"

definition py_list_repr :: "string list \<Rightarrow> string" where
  "py_list_repr ks =
     ''['' @ concat (map (\<lambda>(i, k). (if i = 0 then [] else '', '') @ [CHR 0x27] @ k @ [CHR 0x27])
                        (zip [0 ..< length ks] ks)) @ '']''"

text \<open>\<^verbatim>\<open>df.dropna(subset=names)\<close>: a row stays when every column labelled with one of
  the names is present in it; a name that labels no column is a \<^verbatim>\<open>KeyError\<close>.\<close>

definition dropna :: "string list \<Rightarrow> cell frame \<Rightarrow> exn + cell frame" where
  "dropna names df =
     (case filter (\<lambda>k. k \<notin> set (labels df)) names of
        k # ks \<Rightarrow> Inl (KeyError (py_list_repr (k # ks)))
      | [] \<Rightarrow>
          Inr (select_rows
                 (notna_mask (concat (map (\<lambda>k. named k df) names)) (length (index df)))
                 df))"

text \<open>\<^verbatim>\<open>Series.fillna(v)\<close>\<close>

definition fillna :: "cell \<Rightarrow> cell list \<Rightarrow> cell list" where
  "fillna v c = map (\<lambda>x. if x = NA then v else x) c"

text \<open>\<^verbatim>\<open>pd.to_datetime(series, format='%d/%m/%Y', errors='coerce')\<close>, cell by cell. A
  number is formatted with \<^verbatim>\<open>str\<close> first. The text of a number has no slash, so it
  is coerced to NaT: for a number as read this follows from its printed text, for a
  parsed number it is written out.\<close>

definition to_datetime :: "cell \<Rightarrow> cell" where
  "to_datetime x =
     (case x of
        NA \<Rightarrow> NA
      | Text s \<Rightarrow> (case strptime_dmY s of Some d \<Rightarrow> Timestamp d | None \<Rightarrow> NA)
      | Numeric r \<Rightarrow> (case strptime_dmY r of Some d \<Rightarrow> Timestamp d | None \<Rightarrow> NA)
      | Number v \<Rightarrow> NA
      | Timestamp d \<Rightarrow> Timestamp d)"

text \<open>\<^verbatim>\<open>Series.astype(str)\<close>, cell by cell. A missing cell becomes the text
  \<^verbatim>\<open>nan\<close>, a number as read its printed text. The loaders apply it to columns as
  read only; the last two cases are never reached by them. A timestamp prints as an
  ISO date; the repr of a parsed float64 is not determined by its exact value and is
  left empty.\<close>

definition iso_date :: "date \<Rightarrow> string" where
  "iso_date d =
     [digit_char (year d div 1000), digit_char (year d div 100), digit_char (year d div 10),
      digit_char (year d)] @ ''-'' @ [digit_char (month d div 10), digit_char (month d)] @
     ''-'' @ [digit_char (day d div 10), digit_char (day d)]"

definition astype_str :: "cell \<Rightarrow> cell" where
  "astype_str x =
     (case x of
        NA \<Rightarrow> Text ''nan''
      | Text s \<Rightarrow> Text s
      | Numeric r \<Rightarrow> Text r
      | Number v \<Rightarrow> Text []
      | Timestamp d \<Rightarrow> Text (iso_date d))"

text \<open>\<^verbatim>\<open>Series.str.replace(pat, repl)\<close>, cell by cell: a missing cell stays missing.\<close>

definition series_str_replace :: "string \<Rightarrow> string \<Rightarrow> cell \<Rightarrow> cell" where
  "series_str_replace pat repl x = (case x of Text s \<Rightarrow> Text (str_replace pat repl s) | _ \<Rightarrow> NA)"

text \<open>\<^verbatim>\<open>pd.to_numeric(series, errors='coerce')\<close>, cell by cell: a text that does not
  parse, and anything that is not a number, becomes NaN. A number stays the number it
  is: for a number as read, the value of its printed text.\<close>

definition to_numeric_cell :: "cell \<Rightarrow> cell" where
  "to_numeric_cell x =
     (case x of
        Text s \<Rightarrow> (case to_numeric s of Some v \<Rightarrow> Number v | None \<Rightarrow> NA)
      | Numeric r \<Rightarrow> (case to_numeric r of Some v \<Rightarrow> Number v | None \<Rightarrow> NA)
      | Number v \<Rightarrow> Number v
      | _ \<Rightarrow> NA)"

subsection \<open>Streamlit calls and results\<close>

text \<open>The calls of \<^verbatim>\<open>st.error\<close>, \<^verbatim>\<open>st.write\<close> and \<^verbatim>\<open>st.stop\<close>, in the order they are
  made. The page set-up and the charts are not recorded.\<close>

datatype ui = st_error string | st_write string "string list" | st_stop

text \<open>A call returns a value or lets an exception escape.\<close>

datatype 'a outcome = Returned 'a | Raised exn

definition no_attribute :: "string \<Rightarrow> string" where
  "no_attribute a =
     [CHR 0x27] @ ''DataFrame'' @ [CHR 0x27] @ '' object has no attribute '' @ [CHR 0x27] @ a @ [CHR 0x27]"

subsection \<open>\<^verbatim>\<open>load_keuangan_data\<close>\<close>

definition column_mapping :: "(string \<times> string) list" where
  "column_mapping =
     [(''plat nomor'', ''nopol''), (''volume (l)'', ''jumlahair''), (''jumlah air'', ''jumlahair'')]"

text \<open>Line 61: \<^verbatim>\<open>df['tanggal'] = pd.to_datetime(df['tanggal'], format='%d/%m/%Y', errors='coerce')\<close>.
  Without the column the subscript raises; given several columns, \<^verbatim>\<open>to_datetime\<close>
  refuses the DataFrame.\<close>

definition convert_tanggal :: "cell frame \<Rightarrow> exn + cell frame" where
  "convert_tanggal df =
     (case getitem df ''tanggal'' of
        NoColumn \<Rightarrow> Inl (KeyError ''tanggal'')
      | Series c \<Rightarrow> Inr (setitem df ''tanggal'' (map to_datetime c))
      | SubFrame cs \<Rightarrow> Inl (ValueError ''cannot assemble with duplicate keys''))"

text \<open>Lines 66 to 68, the body of the first loop. Line 68 reads the column line 67 has
  just assigned. A DataFrame has no \<^verbatim>\<open>.str\<close>.\<close>

definition clean_numeric :: "string \<Rightarrow> cell frame \<Rightarrow> exn + cell frame" where
  "clean_numeric col df =
     (if col \<in> set (labels df) then
        (case getitem df col of
           NoColumn \<Rightarrow> Inl (KeyError col)
         | SubFrame cs \<Rightarrow> Inl (AttributeError (no_attribute ''str''))
         | Series c \<Rightarrow>
             (let stripped =
                    map (\<lambda>x. series_str_replace ''.'' []
                                (series_str_replace ''Rp'' [] (astype_str x))) c
              in Inr (setitem df col (fillna (Number (Fin 0)) (map to_numeric_cell stripped)))))
      else Inr df)"

text \<open>Lines 72 and 73, the body of the second loop:
  \<^verbatim>\<open>df[col] = df[col].fillna('Tidak Diketahui')\<close>. With one column of that label a
  Series is filled and assigned; with several, the DataFrame of them is filled and
  assigned back column by column. Either way every column of that label is filled.\<close>

definition fill_categorical :: "string \<Rightarrow> cell frame \<Rightarrow> exn + cell frame" where
  "fill_categorical col df =
     (if col \<in> set (labels df) then
        Inr (df\<lparr>cols := map (\<lambda>(h, c). if h = col then (h, fillna (Text ''Tidak Diketahui'') c)
                                         else (h, c)) (cols df)\<rparr>)
      else Inr df)"

text \<open>Line 75: \<^verbatim>\<open>df['Nama_Bulan'] = df['tanggal'].dt.strftime('%Y-%m (%B)')\<close>. The
  accessor \<^verbatim>\<open>.dt\<close> exists on a Series of timestamps only.\<close>

definition datetimelike :: "cell \<Rightarrow> bool" where
  "datetimelike x = (case x of NA \<Rightarrow> True | Timestamp d \<Rightarrow> True | _ \<Rightarrow> False)"

definition strftime_cell :: "cell \<Rightarrow> cell" where
  "strftime_cell x = (case x of Timestamp d \<Rightarrow> Text (strftime_Ym_B d) | _ \<Rightarrow> NA)"

definition add_nama_bulan :: "cell frame \<Rightarrow> exn + cell frame" where
  "add_nama_bulan df =
     (case getitem df ''tanggal'' of
        NoColumn \<Rightarrow> Inl (KeyError ''tanggal'')
      | SubFrame cs \<Rightarrow> Inl (AttributeError (no_attribute ''dt''))
      | Series c \<Rightarrow>
          if list_all datetimelike c then Inr (setitem df ''Nama_Bulan'' (map strftime_cell c))
          else Inl (AttributeError ''Can only use .dt accessor with datetimelike values''))"

text \<open>Lines 47 to 58: the frame with its labels normalised and renamed.\<close>

definition keuangan_columns :: "'c frame \<Rightarrow> 'c frame" where
  "keuangan_columns df = rename_columns column_mapping (normalise_columns df)"

text \<open>Lines 61 to 76: the rest of the \<^verbatim>\<open>try\<close> block.\<close>

definition keuangan_try :: "cell frame \<Rightarrow> exn + cell frame" where
  "keuangan_try df =
     and_then (convert_tanggal df) (\<lambda>df.
     and_then (dropna [''tanggal''] df) (\<lambda>df.
     and_then (for_each clean_numeric [''pemasukan'', ''pengeluaran'', ''jumlahair''] df) (\<lambda>df.
     and_then (for_each fill_categorical [''nopol'', ''sopir'', ''jenis transaksi''] df)
       add_nama_bulan)))"

text \<open>The function. When \<^verbatim>\<open>read_csv\<close> raises, \<^verbatim>\<open>df\<close> has never been assigned: the
  handler reports the failure with \<^verbatim>\<open>st.error\<close>, and its next line reads
  \<^verbatim>\<open>df.columns\<close>, which raises \<^verbatim>\<open>UnboundLocalError\<close> out of the function. After a
  successful read every exception comes from line 61 or later, where \<^verbatim>\<open>df.columns\<close>
  are the normalised and renamed labels; the handler returns \<^verbatim>\<open>None\<close>.\<close>

definition load_keuangan_data ::
    "exn + csv_cell frame \<Rightarrow> ui list \<times> cell frame option outcome" where
  "load_keuangan_data csv =
     (case csv of
        Inl e \<Rightarrow>
          ([st_error (''Gagal memuat keuangan_data.csv: '' @ str_exn e)],
           Raised (UnboundLocalError ''df''))
      | Inr raw \<Rightarrow>
          (let df = keuangan_columns (object_cells raw)
           in case keuangan_try df of
                Inr t \<Rightarrow> ([], Returned (Some t))
              | Inl e \<Rightarrow>
                  ([st_error (''Gagal memuat keuangan_data.csv: '' @ str_exn e),
                    st_write ''Struktur data yang ditemukan:'' (labels df)],
                   Returned None)))"

subsection \<open>\<^verbatim>\<open>load_gps_data\<close>\<close>

text \<open>Lines 90 and 91.\<close>

definition rename_lokasi :: "'c frame \<Rightarrow> 'c frame" where
  "rename_lokasi df =
     (if ''nama lokasi'' \<in> set (labels df) then rename_columns [(''nama lokasi'', ''lokasi'')] df
      else df)"

text \<open>Line 95, the body of the loop:
  \<^verbatim>\<open>df[col] = pd.to_numeric(df[col].astype(str).str.replace(',', '.'), errors='coerce')\<close>.\<close>

definition convert_coordinate :: "string \<Rightarrow> cell frame \<Rightarrow> exn + cell frame" where
  "convert_coordinate col df =
     (case getitem df col of
        NoColumn \<Rightarrow> Inl (KeyError col)
      | SubFrame cs \<Rightarrow> Inl (AttributeError (no_attribute ''str''))
      | Series c \<Rightarrow>
          Inr (setitem df col
                 (map (\<lambda>x. to_numeric_cell (series_str_replace '','' ''.'' (astype_str x))) c)))"

text \<open>Line 98:
  \<^verbatim>\<open>df = df[(df['latitude'].between(-90, 90)) & (df['longitude'].between(-180, 180))]\<close>.
  A comparison with NaN is false. After line 95 the two columns hold parsed numbers
  and NaN only.\<close>

definition between_cell :: "rat \<Rightarrow> rat \<Rightarrow> cell \<Rightarrow> bool" where
  "between_cell lo hi x = (case x of Number v \<Rightarrow> between lo hi v | _ \<Rightarrow> False)"

definition filter_range :: "cell frame \<Rightarrow> exn + cell frame" where
  "filter_range df =
     (case getitem df ''latitude'' of
        NoColumn \<Rightarrow> Inl (KeyError ''latitude'')
      | SubFrame cs \<Rightarrow> Inl (AttributeError (no_attribute ''between''))
      | Series la \<Rightarrow>
          (case getitem df ''longitude'' of
             NoColumn \<Rightarrow> Inl (KeyError ''longitude'')
           | SubFrame cs \<Rightarrow> Inl (AttributeError (no_attribute ''between''))
           | Series lo \<Rightarrow>
               Inr (select_rows
                      (map (\<lambda>(a, b). a \<and> b)
                         (zip (map (between_cell (- 90) 90) la) (map (between_cell (- 180) 180) lo)))
                      df)))"

text \<open>\<^verbatim>\<open>df.empty\<close>: no row or no column.\<close>

definition frame_empty :: "'c frame \<Rightarrow> bool" where
  "frame_empty df = (index df = [] \<or> cols df = [])"

text \<open>Lines 87 to 91: the frame with its labels normalised and the location renamed.\<close>

definition gps_columns :: "'c frame \<Rightarrow> 'c frame" where
  "gps_columns df = rename_lokasi (normalise_columns df)"

text \<open>Lines 94 to 98: the rest of the \<^verbatim>\<open>try\<close> block.\<close>

definition gps_try :: "cell frame \<Rightarrow> exn + cell frame" where
  "gps_try df =
     and_then (for_each convert_coordinate [''latitude'', ''longitude''] df) (\<lambda>df.
     and_then (dropna [''latitude'', ''longitude''] df) filter_range)"

text \<open>The function. Its handler does not read \<^verbatim>\<open>df\<close>, so it serves a failed read too.\<close>

definition load_gps_data ::
    "exn + csv_cell frame \<Rightarrow> ui list \<times> cell frame option outcome" where
  "load_gps_data csv =
     (case and_then csv (\<lambda>raw. gps_try (gps_columns (object_cells raw))) of
        Inl e \<Rightarrow> ([st_error (''Gagal memuat data_gps.csv: '' @ str_exn e)], Returned None)
      | Inr df \<Rightarrow>
          if frame_empty df
          then ([st_error ''Tidak ada data GPS valid yang dapat ditampilkan''], Returned None)
          else ([], Returned (Some df)))"

subsection \<open>\<^verbatim>\<open>main\<close>, to the guard of lines 115 and 116\<close>

text \<open>\<^verbatim>\<open>main\<close> calls the two loaders in turn and stops the page when either table is
  \<^verbatim>\<open>None\<close>; otherwise it goes on to the views with the two tables.\<close>

datatype run = Crashed exn | Stopped | Views "cell frame" "cell frame"

definition main :: "exn + csv_cell frame \<Rightarrow> exn + csv_cell frame \<Rightarrow> ui list \<times> run" where
  "main csv_keuangan csv_gps =
     (case load_keuangan_data csv_keuangan of
        (ui1, Raised e) \<Rightarrow> (ui1, Crashed e)
      | (ui1, Returned df_keuangan) \<Rightarrow>
          (case load_gps_data csv_gps of
             (ui2, Raised e) \<Rightarrow> (ui1 @ ui2, Crashed e)
           | (ui2, Returned df_gps) \<Rightarrow>
               (case (df_keuangan, df_gps) of
                  (Some k, Some g) \<Rightarrow> (ui1 @ ui2, Views k g)
                | _ \<Rightarrow> (ui1 @ ui2 @ [st_stop], Stopped))))"

subsection \<open>Notions used in the statements\<close>

text \<open>The cells that stand under a label, in any column of that label and any row.\<close>

definition cells_of :: "string \<Rightarrow> 'c frame \<Rightarrow> 'c set" where
  "cells_of k df = (\<Union>c \<in> set (named k df). set c)"

text \<open>The text \<^verbatim>\<open>astype(str)\<close> gives for a cell as read.\<close>

definition printed :: "csv_cell \<Rightarrow> string" where
  "printed y = (case y of Missing \<Rightarrow> ''nan'' | Str s \<Rightarrow> s | CsvNumber r \<Rightarrow> r)"

text \<open>What line 61 makes of a cell as read: its date, if it has one.\<close>

definition date_of :: "csv_cell \<Rightarrow> date option" where
  "date_of y = (case y of Missing \<Rightarrow> None | Str s \<Rightarrow> strptime_dmY s | CsvNumber r \<Rightarrow> strptime_dmY r)"

text \<open>What lines 67 and 68 make of a cell as read.\<close>

definition currency :: "csv_cell \<Rightarrow> num" where
  "currency y =
     (case to_numeric (str_replace ''.'' [] (str_replace ''Rp'' [] (printed y))) of
        Some v \<Rightarrow> v
      | None \<Rightarrow> Fin 0)"

text \<open>What line 95 makes of a cell as read: its number, if it has one.\<close>

definition coordinate :: "csv_cell \<Rightarrow> num option" where
  "coordinate y = to_numeric (str_replace '','' ''.'' (printed y))"

text \<open>What line 73 makes of a cell as read: only a missing cell changes.\<close>

definition categorical :: "csv_cell \<Rightarrow> cell" where
  "categorical y =
     (case y of Missing \<Rightarrow> Text ''Tidak Diketahui'' | Str s \<Rightarrow> Text s | CsvNumber r \<Rightarrow> Numeric r)"

text \<open>The test of lines 97 and 98 on the two coordinates of a row as read.\<close>

definition valid_coordinates :: "csv_cell \<Rightarrow> csv_cell \<Rightarrow> bool" where
  "valid_coordinates a b =
     (case (coordinate a, coordinate b) of
        (Some u, Some v) \<Rightarrow> between (- 90) 90 u \<and> between (- 180) 180 v
      | _ \<Rightarrow> False)"

text \<open>\<^verbatim>\<open>df.drop(columns=ks)\<close>, and the same on a file as read, where a column is known by
  the label lines 48 to 58 give it.\<close>

definition drop_columns :: "string list \<Rightarrow> 'c frame \<Rightarrow> 'c frame" where
  "drop_columns ks df = df\<lparr>cols := filter (\<lambda>(h, c). h \<notin> set ks) (cols df)\<rparr>"

definition canonical :: "string \<Rightarrow> string" where
  "canonical h = rename_label column_mapping (str_lower (str_strip h))"

definition drop_canonical :: "string list \<Rightarrow> 'c frame \<Rightarrow> 'c frame" where
  "drop_canonical ks df = df\<lparr>cols := filter (\<lambda>(h, c). canonical h \<notin> set ks) (cols df)\<rparr>"

section \<open>What each step does to a frame\<close>

text \<open>The two conversions as functions of a cell; the loaders apply them to a whole
  column.\<close>

definition currency_cell :: "cell \<Rightarrow> cell" where
  "currency_cell x =
     (let y = to_numeric_cell (series_str_replace ''.'' [] (series_str_replace ''Rp'' [] (astype_str x)))
      in if y = NA then Number (Fin 0) else y)"

definition coordinate_cell :: "cell \<Rightarrow> cell" where
  "coordinate_cell x = to_numeric_cell (series_str_replace '','' ''.'' (astype_str x))"

text \<open>What the financial loader makes of a cell, by the label of its column.\<close>

definition clean_cell :: "string \<Rightarrow> cell \<Rightarrow> cell" where
  "clean_cell k x =
     (if k = ''tanggal'' then to_datetime x
      else if k = ''pemasukan'' \<or> k = ''pengeluaran'' \<or> k = ''jumlahair'' then currency_cell x
      else if k = ''nopol'' \<or> k = ''sopir'' \<or> k = ''jenis transaksi''
        then (if x = NA then Text ''Tidak Diketahui'' else x)
      else x)"

text \<open>The test of lines 97 and 98 on row \<open>i\<close> of two columns as the loop of line 94
  finds them.\<close>

definition row_ok :: "cell list \<Rightarrow> cell list \<Rightarrow> nat \<Rightarrow> bool" where
  "row_ok a b i =
     (i < length a \<and> i < length b \<and>
      between_cell (- 90) 90 (coordinate_cell (a ! i)) \<and>
      between_cell (- 180) 180 (coordinate_cell (b ! i)))"

section \<open>Evaluation\<close>

lemmas text_defs =
  is_digit_def digit_val_def digits_val_def py_isspace_def str_strip_def lower_char_def
  str_lower_def digit_char_def

lemmas date_defs =
  strptime_dmY_def parse_Y_def is_digit19_def valid_date_def in_ns_bounds_def days_in_month_def
  is_leap_def strftime_Ym_B_def month_name_def

lemmas num_defs =
  to_numeric_def parse_decimal_def take_sign_def take_exponent_def c_isspace_def scale10_def
  between_def num_nonneg_def

lemmas frame_defs =
  labels_def object_cell_def object_cells_def str_exn_def and_then_def normalise_columns_def
  rename_label_def rename_columns_def named_def getitem_def setitem_def compress_def
  select_rows_def notna_def notna_mask_def dropna_def fillna_def to_datetime_def astype_str_def
  series_str_replace_def to_numeric_cell_def no_attribute_def

lemmas keuangan_defs =
  load_keuangan_data_def keuangan_try_def keuangan_columns_def column_mapping_def
  convert_tanggal_def clean_numeric_def fill_categorical_def add_nama_bulan_def
  datetimelike_def strftime_cell_def

lemmas gps_defs =
  load_gps_data_def gps_try_def gps_columns_def rename_lokasi_def convert_coordinate_def between_cell_def
  filter_range_def frame_empty_def

section \<open>Lemmas on frames and on the steps\<close>

lemma and_then_Inr: "and_then m f = Inr y \<longleftrightarrow> (\<exists>x. m = Inr x \<and> f x = Inr y)"
  by (cases m) (simp_all add: and_then_def)

lemma getitem_Series: "getitem df k = Series c \<longleftrightarrow> named k df = [c]"
  by (auto simp: getitem_def split: list.splits)

lemma getitem_NoColumn: "getitem df k = NoColumn \<longleftrightarrow> named k df = []"
  by (auto simp: getitem_def split: list.splits)

lemma named_Nil: "named k df = [] \<longleftrightarrow> k \<notin> set (labels df)"
  by (auto simp: named_def labels_def filter_empty_conv image_iff)

lemma index_setitem: "index (setitem df k v) = index df"
  by (simp add: setitem_def)

lemma filter_other_update:
  "k' \<noteq> k \<Longrightarrow>
   map snd (filter (\<lambda>(h, c). h = k') (map (\<lambda>(h, c). if h = k then (h, f c) else (h, c)) cs)) =
   map snd (filter (\<lambda>(h, c). h = k') cs)"
  by (induction cs) (auto split: if_splits)

lemma filter_same_update:
  "map snd (filter (\<lambda>(h, c). h = k) (map (\<lambda>(h, c). if h = k then (h, f c) else (h, c)) cs)) =
   map f (map snd (filter (\<lambda>(h, c). h = k) cs))"
  by (induction cs) (auto split: if_splits)

lemma filter_absent: "k \<notin> fst ` set cs \<Longrightarrow> filter (\<lambda>(h, c). h = k) cs = []"
  by (induction cs) auto

lemma named_setitem_other: "k' \<noteq> k \<Longrightarrow> named k' (setitem df k v) = named k' df"
  using filter_other_update[of k' k "\<lambda>_. v" "cols df"]
  by (simp add: setitem_def named_def)

lemma named_setitem_same:
  "named k (setitem df k v) = (if k \<in> set (labels df) then map (\<lambda>_. v) (named k df) else [v])"
  using filter_same_update[of k "\<lambda>_. v" "cols df"] filter_absent[of k "cols df"]
  by (simp add: setitem_def named_def labels_def)

lemma labels_setitem:
  "labels (setitem df k v) = (if k \<in> set (labels df) then labels df else labels df @ [k])"
  by (auto simp: setitem_def labels_def o_def case_prod_unfold intro!: map_cong)

lemma index_select_rows: "index (select_rows m df) = compress m (index df)"
  by (simp add: select_rows_def)

lemma named_select_rows: "named k (select_rows m df) = map (compress m) (named k df)"
  by (simp add: select_rows_def named_def filter_map o_def case_prod_unfold)

lemma labels_select_rows: "labels (select_rows m df) = labels df"
  by (simp add: select_rows_def labels_def o_def case_prod_unfold)

lemma labels_setitem_in: "k \<in> set (labels df) \<Longrightarrow> labels (setitem df k v) = labels df"
  by (simp add: labels_setitem)

lemma named_in_labels: "named k df = c # cs \<Longrightarrow> k \<in> set (labels df)"
  using named_Nil[of k df] by auto

lemma convert_tanggal_Inr:
  "convert_tanggal df = Inr df' \<longleftrightarrow>
   (\<exists>c. named ''tanggal'' df = [c] \<and> df' = setitem df ''tanggal'' (map to_datetime c))"
  by (auto simp: convert_tanggal_def getitem_def split: list.splits)

lemma dropna_Inr:
  "dropna ks df = Inr df' \<longleftrightarrow>
   (set ks \<subseteq> set (labels df) \<and>
    df' = select_rows (notna_mask (concat (map (\<lambda>k. named k df) ks)) (length (index df))) df)"
proof (cases "filter (\<lambda>k. k \<notin> set (labels df)) ks")
  case Nil
  then have "set ks \<subseteq> set (labels df)" by (auto simp: filter_empty_conv)
  with Nil show ?thesis by (auto simp: dropna_def)
next
  case (Cons a as)
  then have "a \<in> set (filter (\<lambda>k. k \<notin> set (labels df)) ks)" by simp
  then have "\<not> set ks \<subseteq> set (labels df)" by auto
  with Cons show ?thesis by (simp add: dropna_def)
qed

lemma fillna_currency:
  "fillna (Number (Fin 0))
     (map (to_numeric_cell \<circ>
           (\<lambda>x. series_str_replace ''.'' [] (series_str_replace ''Rp'' [] (astype_str x)))) c) =
   map currency_cell c"
  by (simp add: fillna_def currency_cell_def Let_def)

lemma clean_numeric_Inr:
  "clean_numeric col df = Inr df' \<longleftrightarrow>
   (col \<notin> set (labels df) \<and> df' = df) \<or>
   (\<exists>c. named col df = [c] \<and> df' = setitem df col (map currency_cell c))"
  using named_in_labels[of col df]
  by (auto simp: clean_numeric_def getitem_def fillna_currency Let_def named_Nil split: list.splits)

lemma clean_numeric_effect:
  assumes "clean_numeric col df = Inr df'"
  shows "index df' = index df" and "labels df' = labels df"
    and "named k df' = (if k = col then map (map currency_cell) (named k df) else named k df)"
  using assms named_in_labels[of col df] named_Nil[of col df]
  by (auto simp: clean_numeric_Inr index_setitem labels_setitem named_setitem_same named_setitem_other)

lemma convert_tanggal_effect:
  assumes "convert_tanggal df = Inr df'"
  shows "index df' = index df" and "labels df' = labels df"
    and "named k df' = (if k = ''tanggal'' then map (map to_datetime) (named k df) else named k df)"
  using assms named_in_labels[of "''tanggal''" df]
  by (auto simp: convert_tanggal_Inr index_setitem labels_setitem named_setitem_same named_setitem_other)

lemma dropna_effect:
  assumes "dropna ks df = Inr df'"
  shows "index df' = compress (notna_mask (concat (map (\<lambda>k. named k df) ks)) (length (index df))) (index df)"
    and "labels df' = labels df"
    and "named k df' = map (compress (notna_mask (concat (map (\<lambda>k. named k df) ks)) (length (index df)))) (named k df)"
  using assms by (auto simp: dropna_Inr index_select_rows labels_select_rows named_select_rows)

lemma fill_categorical_effect:
  assumes "fill_categorical col df = Inr df'"
  shows "index df' = index df" and "labels df' = labels df"
    and "named k df' = (if k = col then map (fillna (Text ''Tidak Diketahui'')) (named k df) else named k df)"
proof -
  have eq: "df' = (if col \<in> set (labels df)
      then df\<lparr>cols := map (\<lambda>(h, c). if h = col then (h, fillna (Text ''Tidak Diketahui'') c) else (h, c)) (cols df)\<rparr>
      else df)"
    using assms by (auto simp: fill_categorical_def split: if_splits)
  show "index df' = index df" by (simp add: eq)
  show "labels df' = labels df"
    by (auto simp: eq labels_def o_def case_prod_unfold intro!: map_cong)
  show "named k df' = (if k = col then map (fillna (Text ''Tidak Diketahui'')) (named k df) else named k df)"
  proof (cases "col \<in> set (labels df)")
    case True
    then show ?thesis
      using filter_same_update[of col "fillna (Text ''Tidak Diketahui'')" "cols df"]
        filter_other_update[of k col "fillna (Text ''Tidak Diketahui'')" "cols df"]
      by (simp add: eq named_def)
  next
    case False
    then have "named col df = []" by (simp add: named_Nil)
    with False show ?thesis by (simp add: eq)
  qed
qed

lemma add_nama_bulan_Inr:
  "add_nama_bulan df = Inr df' \<longleftrightarrow>
   (\<exists>c. named ''tanggal'' df = [c] \<and> list_all datetimelike c \<and>
        df' = setitem df ''Nama_Bulan'' (map strftime_cell c))"
  by (auto simp: add_nama_bulan_def getitem_def split: list.splits)

lemma add_nama_bulan_effect:
  assumes "add_nama_bulan df = Inr df'"
  shows "index df' = index df"
    and "k \<noteq> ''Nama_Bulan'' \<Longrightarrow> named k df' = named k df"
  using assms by (auto simp: add_nama_bulan_Inr index_setitem named_setitem_other)

lemma compress_map_map: "compress (map f zs) (map g zs) = map g (filter f zs)"
  by (induction zs) (auto simp: compress_def)

lemma zip_upt_map:
  "zip xs (map f [0 ..< n]) = map (\<lambda>i. (xs ! i, f i)) [0 ..< min n (length xs)]"
  by (rule nth_equalityI) auto

lemma filter_upt_min:
  assumes "\<And>i. i < n \<Longrightarrow> f i \<Longrightarrow> i < l"
  shows "filter f [0 ..< min n l] = filter f [0 ..< n]"
proof -
  have "[0 ..< n] = [0 ..< min n l] @ [min n l ..< n]"
    by (metis le_add_diff_inverse min.cobounded1 upt_add_eq_append zero_le)
  moreover have "filter f [min n l ..< n] = []"
    using assms by (fastforce simp: filter_empty_conv)
  ultimately show ?thesis by (metis append_Nil2 filter_append)
qed

lemma compress_upt:
  assumes "\<And>i. i < n \<Longrightarrow> f i \<Longrightarrow> i < length xs"
  shows "compress (map f [0 ..< n]) xs = map (nth xs) (filter f [0 ..< n])"
proof -
  have "compress (map f [0 ..< n]) xs = map (nth xs) (filter f [0 ..< min n (length xs)])"
    by (simp add: compress_def zip_upt_map filter_map o_def)
  then show ?thesis using filter_upt_min[of n f "length xs"] assms by simp
qed

lemma compress_subset: "set (compress m xs) \<subseteq> set xs"
  by (auto simp: compress_def dest: set_zip_leftD)

lemma compress_map: "compress m (map f xs) = map f (compress m xs)"
proof (induction xs arbitrary: m)
  case Nil
  then show ?case by (simp add: compress_def)
next
  case (Cons x xs)
  then show ?case by (cases m) (auto simp: compress_def)
qed

lemma clean_cell_other:
  "k \<noteq> ''tanggal'' \<Longrightarrow> k \<noteq> ''pemasukan'' \<Longrightarrow> k \<noteq> ''pengeluaran'' \<Longrightarrow> k \<noteq> ''jumlahair'' \<Longrightarrow>
   k \<noteq> ''nopol'' \<Longrightarrow> k \<noteq> ''sopir'' \<Longrightarrow> k \<noteq> ''jenis transaksi'' \<Longrightarrow> map (clean_cell k) xs = xs"
  by (simp add: clean_cell_def map_idI)

lemma keuangan_try_result:
  assumes "keuangan_try df = Inr t"
  shows "\<exists>c. named ''tanggal'' df = [c] \<and>
    index t = compress (notna_mask [map to_datetime c] (length (index df))) (index df) \<and>
    (\<forall>k. k \<noteq> ''Nama_Bulan'' \<longrightarrow>
           named k t =
           map (\<lambda>col. map (clean_cell k) (compress (notna_mask [map to_datetime c] (length (index df))) col))
             (named k df))"
proof -
  from assms obtain d1 d2 d3 d4 d5 d6 d7 d8 where
    s1: "convert_tanggal df = Inr d1" and
    s2: "dropna [''tanggal''] d1 = Inr d2" and
    s3: "clean_numeric ''pemasukan'' d2 = Inr d3" and
    s4: "clean_numeric ''pengeluaran'' d3 = Inr d4" and
    s5: "clean_numeric ''jumlahair'' d4 = Inr d5" and
    s6: "fill_categorical ''nopol'' d5 = Inr d6" and
    s7: "fill_categorical ''sopir'' d6 = Inr d7" and
    s8: "fill_categorical ''jenis transaksi'' d7 = Inr d8" and
    s9: "add_nama_bulan d8 = Inr t"
    by (auto simp: keuangan_try_def and_then_Inr)
  from s1 obtain c where c: "named ''tanggal'' df = [c]"
    by (auto simp: convert_tanggal_Inr)
  let ?m = "notna_mask [map to_datetime c] (length (index df))"
  have m: "notna_mask (concat (map (\<lambda>k. named k d1) [''tanggal''])) (length (index d1)) = ?m"
    by (simp add: convert_tanggal_effect[OF s1] c)
  have i: "index t = compress ?m (index df)"
    using m
    by (simp add: add_nama_bulan_effect(1)[OF s9] fill_categorical_effect(1)[OF s8]
        fill_categorical_effect(1)[OF s7] fill_categorical_effect(1)[OF s6]
        clean_numeric_effect(1)[OF s5] clean_numeric_effect(1)[OF s4] clean_numeric_effect(1)[OF s3]
        dropna_effect(1)[OF s2] convert_tanggal_effect(1)[OF s1])
  have n: "named k t = map (\<lambda>col. map (clean_cell k) (compress ?m col)) (named k df)"
    if "k \<noteq> ''Nama_Bulan''" for k
    using m that
    by (auto simp: add_nama_bulan_effect(2)[OF s9] fill_categorical_effect(3)[OF s8]
        fill_categorical_effect(3)[OF s7] fill_categorical_effect(3)[OF s6]
        clean_numeric_effect(3)[OF s5] clean_numeric_effect(3)[OF s4] clean_numeric_effect(3)[OF s3]
        dropna_effect(3)[OF s2] convert_tanggal_effect(3)[OF s1]
        clean_cell_def clean_cell_other compress_map fillna_def o_def)
  from c i n show ?thesis by blast
qed

lemma named_keuangan_columns_object:
  "named k (keuangan_columns (object_cells raw)) = map (map object_cell) (named k (keuangan_columns raw))"
  by (simp add: named_def keuangan_columns_def rename_columns_def normalise_columns_def object_cells_def
      filter_map o_def case_prod_unfold)

lemma index_keuangan_columns_object: "index (keuangan_columns (object_cells raw)) = index raw"
  by (simp add: keuangan_columns_def rename_columns_def normalise_columns_def object_cells_def)

lemma labels_keuangan_columns_object:
  "labels (keuangan_columns (object_cells raw)) = labels (keuangan_columns raw)"
  by (simp add: labels_def keuangan_columns_def rename_columns_def normalise_columns_def object_cells_def
      o_def case_prod_unfold)

lemma load_keuangan_data_Some:
  "load_keuangan_data (Inr raw) = (ui, Returned (Some t)) \<longleftrightarrow>
   ui = [] \<and> keuangan_try (keuangan_columns (object_cells raw)) = Inr t"
  by (auto simp: load_keuangan_data_def Let_def split: sum.splits)

lemma comprehension_filter:
  "concat (map (\<lambda>i. if P i then [g i] else []) xs) = map g (filter P xs)"
  by (induction xs) auto

lemma to_datetime_object: "to_datetime (object_cell y) = (case date_of y of None \<Rightarrow> NA | Some d \<Rightarrow> Timestamp d)"
  by (simp add: to_datetime_def object_cell_def date_of_def split: option.splits csv_cell.splits)

lemma strptime_valid: "strptime_dmY s = Some d \<Longrightarrow> valid_date d"
  by (auto simp: strptime_dmY_def Let_def split: list.splits option.splits if_splits)

lemma date_of_valid: "date_of y = Some d \<Longrightarrow> valid_date d"
  by (auto simp: date_of_def strptime_valid split: csv_cell.splits)

lemma date_mask:
  "notna_mask [map to_datetime (map object_cell c)] n =
   map (\<lambda>i. i < length c \<and> date_of (c ! i) \<noteq> None) [0 ..< n]"
  by (auto simp: notna_mask_def notna_def to_datetime_object split: option.splits)

lemma str_replace_subset: "set (str_replace pat [] s) \<subseteq> set s"
proof (induction pat "[] :: string" s rule: str_replace.induct)
  case (1 pat)
  then show ?case by simp
next
  case (2 pat c cs)
  have "set (drop (length pat) (c # cs)) \<subseteq> set (c # cs)" by (rule set_drop_subset)
  with 2 show ?case by (auto split: if_splits)
qed

lemma take_sign_neg: "take_sign s = (True, r) \<Longrightarrow> CHR ''-'' \<in> set s"
  by (auto simp: take_sign_def split: list.splits if_splits)

lemma scale10_nonneg: "0 \<le> q \<Longrightarrow> 0 \<le> scale10 q e"
  by (simp add: scale10_def)

lemma parse_decimal_nonneg:
  assumes "parse_decimal s = Some q" and "CHR ''-'' \<notin> set s"
  shows "0 \<le> q"
proof -
  obtain neg s2 where ts: "take_sign (dropWhile c_isspace s) = (neg, s2)" by (cases "take_sign (dropWhile c_isspace s)")
  have "set (dropWhile c_isspace s) \<subseteq> set s" by (rule set_dropWhileD[THEN subsetI]) 
  with assms(2) have "\<not> neg" using take_sign_neg[of "dropWhile c_isspace s" s2] ts by (cases neg) auto
  with assms(1) ts show ?thesis
    by (auto simp: parse_decimal_def Let_def scale10_nonneg split: prod.splits option.splits if_splits list.splits)
qed

lemma lower_char_minus: "lower_char c = CHR ''-'' \<Longrightarrow> c = CHR ''-''"
  by (auto simp: lower_char_def split: option.splits if_splits)

lemma str_lower_minus: "CHR ''-'' \<in> set (str_lower s) \<Longrightarrow> CHR ''-'' \<in> set s"
  by (auto simp: str_lower_def dest: lower_char_minus[OF sym])

lemma to_numeric_nonneg:
  assumes "to_numeric s = Some v" and "CHR ''-'' \<notin> set s"
  shows "num_nonneg v"
proof (cases "parse_decimal s")
  case (Some q)
  with assms show ?thesis by (auto simp: to_numeric_def num_nonneg_def parse_decimal_nonneg)
next
  case None
  have "CHR ''-'' \<notin> set (str_lower s)" using assms(2) str_lower_minus by blast
  then have "str_lower s \<noteq> ''-inf''" "str_lower s \<noteq> ''-infinity''" by auto
  with None assms(1) show ?thesis
    by (auto simp: to_numeric_def num_nonneg_def Let_def split: if_splits)
qed

lemma currency_nonneg:
  assumes "CHR ''-'' \<notin> set (printed y)"
  shows "num_nonneg (currency y)"
proof -
  from assms have "CHR ''-'' \<notin> set (str_replace ''.'' [] (str_replace ''Rp'' [] (printed y)))"
    using str_replace_subset by blast
  then show ?thesis
    using to_numeric_nonneg[of "str_replace ''.'' [] (str_replace ''Rp'' [] (printed y))"]
    by (auto simp: currency_def num_nonneg_def split: option.splits)
qed

lemma astype_str_object: "astype_str (object_cell y) = Text (printed y)"
  by (simp add: astype_str_def object_cell_def printed_def split: csv_cell.splits)

lemma currency_cell_object: "currency_cell (object_cell y) = Number (currency y)"
  by (auto simp: currency_cell_def currency_def astype_str_object series_str_replace_def
      to_numeric_cell_def Let_def split: option.splits)

lemma cells_of_loaded:
  assumes "load_keuangan_data (Inr raw) = (ui, Returned (Some t))"
    and "k \<noteq> ''Nama_Bulan''" and "x \<in> cells_of k t"
  shows "\<exists>y \<in> cells_of k (keuangan_columns raw). x = clean_cell k (object_cell y)"
proof -
  let ?df = "keuangan_columns (object_cells raw)"
  from assms(1) have "keuangan_try ?df = Inr t" by (simp add: load_keuangan_data_Some)
  from keuangan_try_result[OF this] assms(2) obtain m where
    n: "named k t = map (\<lambda>col. map (clean_cell k) (compress m col)) (named k ?df)"
    by blast
  from assms(3) obtain col where col: "col \<in> set (named k ?df)" and x: "x \<in> clean_cell k ` set (compress m col)"
    unfolding cells_of_def n by auto
  from col obtain col0 where col0: "col0 \<in> set (named k (keuangan_columns raw))" and c: "col = map object_cell col0"
    unfolding named_keuangan_columns_object by auto
  from x obtain z where z: "z \<in> set col" and xz: "x = clean_cell k z"
    using compress_subset[of m col] by auto
  from z c obtain y where "y \<in> set col0" and "z = object_cell y" by auto
  with col0 xz show ?thesis unfolding cells_of_def by blast
qed

lemma coordinate_cell_eq:
  "(\<lambda>x. to_numeric_cell (series_str_replace '','' ''.'' (astype_str x))) = coordinate_cell"
  by (simp add: fun_eq_iff coordinate_cell_def)

lemma convert_coordinate_Inr:
  "convert_coordinate col df = Inr df' \<longleftrightarrow>
   (\<exists>c. named col df = [c] \<and> df' = setitem df col (map coordinate_cell c))"
  by (auto simp: convert_coordinate_def getitem_def coordinate_cell_eq split: list.splits)

lemma filter_range_Inr:
  "filter_range df = Inr df' \<longleftrightarrow>
   (\<exists>la lo. named ''latitude'' df = [la] \<and> named ''longitude'' df = [lo] \<and>
      df' = select_rows
              (map (\<lambda>(a, b). a \<and> b)
                 (zip (map (between_cell (- 90) 90) la) (map (between_cell (- 180) 180) lo))) df)"
  by (auto simp: filter_range_def getitem_def split: list.splits)

lemma zip_map_same: "zip (map f zs) (map g zs) = map (\<lambda>z. (f z, g z)) zs"
  by (induction zs) auto

lemma coordinate_mask:
  "notna_mask [a, b] n = map (\<lambda>i. i < length a \<and> notna (a ! i) \<and> i < length b \<and> notna (b ! i)) [0 ..< n]"
  by (auto simp: notna_mask_def)

lemma gps_try_Inr:
  "gps_try df = Inr t \<longleftrightarrow>
   (\<exists>a b. named ''latitude'' df = [a] \<and> named ''longitude'' df = [b] \<and>
      t = select_rows
            (map (\<lambda>i. between_cell (- 90) 90 (coordinate_cell (a ! i)) \<and>
                      between_cell (- 180) 180 (coordinate_cell (b ! i)))
               (filter (\<lambda>i. i < length a \<and> notna (coordinate_cell (a ! i)) \<and>
                            i < length b \<and> notna (coordinate_cell (b ! i)))
                  [0 ..< length (index df)]))
            (select_rows
               (map (\<lambda>i. i < length a \<and> notna (coordinate_cell (a ! i)) \<and>
                         i < length b \<and> notna (coordinate_cell (b ! i)))
                  [0 ..< length (index df)])
               (setitem (setitem df ''latitude'' (map coordinate_cell a)) ''longitude''
                  (map coordinate_cell b))))"
  (is "?L \<longleftrightarrow> (\<exists>a b. ?A a \<and> ?B b \<and> t = ?T a b)")
proof -
  have key: "gps_try df = Inr (?T a b)" if a: "?A a" and b: "?B b" for a b
  proof -
    let ?a' = "map coordinate_cell a" and ?b' = "map coordinate_cell b"
    let ?d1 = "setitem df ''latitude'' ?a'"
    let ?d2 = "setitem ?d1 ''longitude'' ?b'"
    let ?f = "\<lambda>i. i < length a \<and> notna (coordinate_cell (a ! i)) \<and>
                            i < length b \<and> notna (coordinate_cell (b ! i))"
    let ?I = "filter ?f [0 ..< length (index df)]"
    let ?m1 = "map ?f [0 ..< length (index df)]"
    let ?d3 = "select_rows ?m1 ?d2"
    have la: "''latitude'' \<in> set (labels df)" and lo: "''longitude'' \<in> set (labels df)"
      using a b named_in_labels by blast+
    have s1: "convert_coordinate ''latitude'' df = Inr ?d1"
      using a by (simp add: convert_coordinate_Inr)
    have n1: "named ''longitude'' ?d1 = [b]" "named ''latitude'' ?d1 = [?a']"
      using a b la by (simp_all add: named_setitem_other named_setitem_same)
    have l1: "labels ?d1 = labels df" using la by (simp add: labels_setitem)
    have s2: "convert_coordinate ''longitude'' ?d1 = Inr ?d2"
      using n1 by (simp add: convert_coordinate_Inr)
    have n2: "named ''latitude'' ?d2 = [?a']" "named ''longitude'' ?d2 = [?b']"
      using n1 lo l1 by (simp_all add: named_setitem_other named_setitem_same)
    have l2: "labels ?d2 = labels df" using lo l1 by (simp add: labels_setitem)
    have i2: "index ?d2 = index df" by (simp add: index_setitem)
    have m1: "notna_mask (concat (map (\<lambda>k. named k ?d2) [''latitude'', ''longitude''])) (length (index ?d2)) = ?m1"
      unfolding i2 by (simp add: n2 coordinate_mask cong: conj_cong)
    have s3: "dropna [''latitude'', ''longitude''] ?d2 = Inr ?d3"
      unfolding dropna_Inr m1 using la lo l2 by simp
    have c1: "compress ?m1 ?a' = map (nth ?a') ?I"
      by (rule compress_upt) simp
    have c2: "compress ?m1 ?b' = map (nth ?b') ?I"
      by (rule compress_upt) simp
    have n3: "named ''latitude'' ?d3 = [map (nth ?a') ?I]" "named ''longitude'' ?d3 = [map (nth ?b') ?I]"
      by (simp_all add: named_select_rows n2 c1 c2)
    have m2: "map (\<lambda>(x, y). x \<and> y)
                 (zip (map (between_cell (- 90) 90) (map (nth ?a') ?I))
                      (map (between_cell (- 180) 180) (map (nth ?b') ?I))) =
              map (\<lambda>i. between_cell (- 90) 90 (coordinate_cell (a ! i)) \<and>
                      between_cell (- 180) 180 (coordinate_cell (b ! i))) ?I"
      by (simp add: zip_map_same)
    have s4: "filter_range ?d3 = Inr (?T a b)"
      unfolding filter_range_Inr using n3 m2 by simp
    show ?thesis
      by (simp add: gps_try_def and_then_def s1 s2 s3 s4)
  qed
  show ?thesis
  proof
    assume ?L
    then obtain d2 d3 where "for_each convert_coordinate [''latitude'', ''longitude''] df = Inr d2"
      by (auto simp: gps_try_def and_then_Inr)
    then obtain d1 where s1: "convert_coordinate ''latitude'' df = Inr d1"
      and s2: "convert_coordinate ''longitude'' d1 = Inr d2"
      by (auto simp: and_then_Inr)
    from s1 obtain a where a: "?A a" and d1: "d1 = setitem df ''latitude'' (map coordinate_cell a)"
      by (auto simp: convert_coordinate_Inr)
    from s2 obtain b where "named ''longitude'' d1 = [b]" by (auto simp: convert_coordinate_Inr)
    then have b: "?B b" by (simp add: d1 named_setitem_other)
    from key[OF a b] \<open>?L\<close> have "t = ?T a b" by simp
    with a b show "\<exists>a b. ?A a \<and> ?B b \<and> t = ?T a b" by blast
  next
    assume "\<exists>a b. ?A a \<and> ?B b \<and> t = ?T a b"
    then show ?L using key by blast
  qed
qed

lemma between_cell_notna: "between_cell lo hi x \<Longrightarrow> notna x"
  by (auto simp: between_cell_def notna_def)

lemma gps_try_result:
  assumes "gps_try df = Inr t"
  shows "\<exists>a b. named ''latitude'' df = [a] \<and> named ''longitude'' df = [b] \<and>
    index t = map (nth (index df)) (filter (row_ok a b) [0 ..< length (index df)]) \<and>
    named ''latitude'' t = [map (\<lambda>i. coordinate_cell (a ! i)) (filter (row_ok a b) [0 ..< length (index df)])] \<and>
    named ''longitude'' t = [map (\<lambda>i. coordinate_cell (b ! i)) (filter (row_ok a b) [0 ..< length (index df)])]"
proof -
  let ?n = "length (index df)"
  from assms obtain a b where a: "named ''latitude'' df = [a]" and b: "named ''longitude'' df = [b]"
    and t: "t = select_rows
            (map (\<lambda>i. between_cell (- 90) 90 (coordinate_cell (a ! i)) \<and>
                      between_cell (- 180) 180 (coordinate_cell (b ! i)))
               (filter (\<lambda>i. i < length a \<and> notna (coordinate_cell (a ! i)) \<and>
                            i < length b \<and> notna (coordinate_cell (b ! i)))
                  [0 ..< ?n]))
            (select_rows
               (map (\<lambda>i. i < length a \<and> notna (coordinate_cell (a ! i)) \<and>
                         i < length b \<and> notna (coordinate_cell (b ! i)))
                  [0 ..< ?n])
               (setitem (setitem df ''latitude'' (map coordinate_cell a)) ''longitude''
                  (map coordinate_cell b)))"
    unfolding gps_try_Inr by blast
  let ?f = "\<lambda>i. i < length a \<and> notna (coordinate_cell (a ! i)) \<and>
                            i < length b \<and> notna (coordinate_cell (b ! i))"
  let ?g = "\<lambda>i. between_cell (- 90) 90 (coordinate_cell (a ! i)) \<and>
                      between_cell (- 180) 180 (coordinate_cell (b ! i))"
  let ?I = "filter ?f [0 ..< ?n]"
  let ?a' = "map coordinate_cell a" and ?b' = "map coordinate_cell b"
  let ?d2 = "setitem (setitem df ''latitude'' ?a') ''longitude'' ?b'"
  have la: "''latitude'' \<in> set (labels df)" and lo: "''longitude'' \<in> set (labels df)"
    using a b named_in_labels by blast+
  have n2: "named ''latitude'' ?d2 = [?a']" "named ''longitude'' ?d2 = [?b']"
    using a b la lo by (simp_all add: named_setitem_other named_setitem_same labels_setitem)
  have fg: "filter ?g ?I = filter (row_ok a b) [0 ..< ?n]"
    by (auto simp: row_ok_def between_cell_notna intro!: filter_cong)
  have ci: "compress (map ?f [0 ..< ?n]) (index df) = map (nth (index df)) ?I"
    by (rule compress_upt) simp
  have ca: "compress (map ?f [0 ..< ?n]) ?a' = map (nth ?a') ?I"
    by (rule compress_upt) simp
  have cb: "compress (map ?f [0 ..< ?n]) ?b' = map (nth ?b') ?I"
    by (rule compress_upt) simp
  have 1: "index t = map (nth (index df)) (filter (row_ok a b) [0 ..< ?n])"
    unfolding t index_select_rows index_setitem ci compress_map_map fg ..
  have "named ''latitude'' t = [map (nth ?a') (filter (row_ok a b) [0 ..< ?n])]"
    by (simp only: t named_select_rows n2 list.map ca compress_map_map fg)
  then have 2: "named ''latitude'' t = [map (\<lambda>i. coordinate_cell (a ! i)) (filter (row_ok a b) [0 ..< ?n])]"
    by (simp add: row_ok_def)
  have "named ''longitude'' t = [map (nth ?b') (filter (row_ok a b) [0 ..< ?n])]"
    by (simp only: t named_select_rows n2 list.map cb compress_map_map fg)
  then have 3: "named ''longitude'' t = [map (\<lambda>i. coordinate_cell (b ! i)) (filter (row_ok a b) [0 ..< ?n])]"
    by (simp add: row_ok_def)
  from a b 1 2 3 show ?thesis by blast
qed

lemma named_gps_columns_object:
  "named k (gps_columns (object_cells raw)) = map (map object_cell) (named k (gps_columns raw))"
  by (simp add: named_def gps_columns_def rename_lokasi_def rename_columns_def normalise_columns_def
      object_cells_def labels_def filter_map o_def case_prod_unfold)


lemma coordinate_cell_object:
  "coordinate_cell (object_cell y) = (case coordinate y of None \<Rightarrow> NA | Some v \<Rightarrow> Number v)"
  by (auto simp: coordinate_cell_def coordinate_def astype_str_object series_str_replace_def
      to_numeric_cell_def split: option.splits)

lemma row_ok_object:
  "row_ok (map object_cell a) (map object_cell b) i \<longleftrightarrow>
   i < length a \<and> i < length b \<and> valid_coordinates (a ! i) (b ! i)"
  by (auto simp: row_ok_def valid_coordinates_def coordinate_cell_object between_cell_def
      split: option.splits)



lemma load_gps_data_Inl:
  "load_gps_data (Inl e) = ([st_error (''Gagal memuat data_gps.csv: '' @ str_exn e)], Returned None)"
  by (simp add: load_gps_data_def and_then_def)

lemma named_drop_columns:
  "named k (drop_columns ks df) = (if k \<in> set ks then [] else named k df)"
proof -
  have "filter (\<lambda>(h, c). h = k) (filter (\<lambda>(h, c). h \<notin> set ks) cs) =
        (if k \<in> set ks then [] else filter (\<lambda>(h, c). h = k) cs)" for cs :: "(string \<times> 'a list) list"
    by (induction cs) auto
  then show ?thesis by (simp add: named_def drop_columns_def)
qed

lemma labels_drop_columns:
  "labels (drop_columns ks df) = filter (\<lambda>h. h \<notin> set ks) (labels df)"
  by (simp add: labels_def drop_columns_def filter_map o_def case_prod_unfold)

lemma index_drop_columns: "index (drop_columns ks df) = index df"
  by (simp add: drop_columns_def)

lemma setitem_drop_columns:
  assumes "k \<notin> set ks"
  shows "setitem (drop_columns ks df) k v = drop_columns ks (setitem df k v)"
proof -
  have m: "map (\<lambda>(h, c). if h = k then (h, v) else (h, c)) (filter (\<lambda>(h, c). h \<notin> set ks) cs) =
        filter (\<lambda>(h, c). h \<notin> set ks) (map (\<lambda>(h, c). if h = k then (h, v) else (h, c)) cs)"
    for cs :: "(string \<times> 'a list) list"
    using assms by (induction cs) (auto split: if_splits)
  have l: "k \<in> set (labels (drop_columns ks df)) \<longleftrightarrow> k \<in> set (labels df)"
    using assms by (auto simp: labels_drop_columns)
  show ?thesis
    using assms by (simp add: setitem_def l) (simp add: drop_columns_def m)
qed

lemma drop_columns_setitem_dropped:
  assumes "k \<in> set ks" and "k \<in> set (labels df)"
  shows "drop_columns ks (setitem df k v) = drop_columns ks df"
proof -
  have "filter (\<lambda>(h, c). h \<notin> set ks) (map (\<lambda>(h, c). if h = k then (h, v) else (h, c)) cs) =
        filter (\<lambda>(h, c). h \<notin> set ks) cs" for cs :: "(string \<times> 'a list) list"
    using assms(1) by (induction cs) (auto split: if_splits)
  then show ?thesis using assms(2) by (simp add: setitem_def drop_columns_def)
qed

lemma select_rows_drop_columns:
  "select_rows m (drop_columns ks df) = drop_columns ks (select_rows m df)"
  by (simp add: select_rows_def drop_columns_def filter_map o_def case_prod_unfold)

lemma convert_tanggal_drop:
  assumes "convert_tanggal df = Inr d" and "''tanggal'' \<notin> set ks"
  shows "convert_tanggal (drop_columns ks df) = Inr (drop_columns ks d)"
  using assms by (auto simp: convert_tanggal_Inr named_drop_columns setitem_drop_columns)

lemma dropna_drop:
  assumes "dropna [''tanggal''] df = Inr d" and "''tanggal'' \<notin> set ks"
  shows "dropna [''tanggal''] (drop_columns ks df) = Inr (drop_columns ks d)"
  using assms
  by (auto simp: dropna_Inr named_drop_columns labels_drop_columns index_drop_columns
      select_rows_drop_columns)

lemma clean_numeric_drop:
  assumes "clean_numeric col df = Inr d"
  shows "clean_numeric col (drop_columns ks df) = Inr (drop_columns ks d)"
proof (cases "col \<in> set ks")
  case True
  then have "col \<notin> set (labels (drop_columns ks df))" by (simp add: labels_drop_columns)
  then have l: "clean_numeric col (drop_columns ks df) = Inr (drop_columns ks df)"
    by (simp add: clean_numeric_Inr)
  from assms have "drop_columns ks d = drop_columns ks df"
    using True named_in_labels[of col df]
    by (auto simp: clean_numeric_Inr drop_columns_setitem_dropped)
  with l show ?thesis by simp
next
  case False
  with assms show ?thesis
    by (auto simp: clean_numeric_Inr named_drop_columns labels_drop_columns setitem_drop_columns)
qed

lemma fill_categorical_drop:
  assumes "fill_categorical col df = Inr d"
  shows "fill_categorical col (drop_columns ks df) = Inr (drop_columns ks d)"
proof -
  have m: "map (\<lambda>(h, c). if h = col then (h, f c) else (h, c)) (filter (\<lambda>(h, c). h \<notin> set ks) cs) =
        filter (\<lambda>(h, c). h \<notin> set ks) (map (\<lambda>(h, c). if h = col then (h, f c) else (h, c)) cs)"
    for cs :: "(string \<times> cell list) list" and f
    by (induction cs) (auto split: if_splits)
  have z: "col \<in> set ks \<Longrightarrow>
      filter (\<lambda>(h, c). h \<notin> set ks) (map (\<lambda>(h, c). if h = col then (h, f c) else (h, c)) cs) =
      filter (\<lambda>(h, c). h \<notin> set ks) cs"
    for cs :: "(string \<times> cell list) list" and f
    by (induction cs) (auto split: if_splits)
  let ?u = "\<lambda>(h, c). if h = col then (h, fillna (Text ''Tidak Diketahui'') c) else (h, c)"
  show ?thesis
  proof (cases "col \<in> set (labels df)")
    case False
    then have "col \<notin> set (labels (drop_columns ks df))" by (simp add: labels_drop_columns)
    with False assms show ?thesis by (simp add: fill_categorical_def)
  next
    case True
    with assms have d: "d = df\<lparr>cols := map ?u (cols df)\<rparr>"
      by (simp add: fill_categorical_def)
    show ?thesis
    proof (cases "col \<in> set ks")
      case True
      then have "col \<notin> set (labels (drop_columns ks df))" by (simp add: labels_drop_columns)
      then have "fill_categorical col (drop_columns ks df) = Inr (drop_columns ks df)"
        by (simp add: fill_categorical_def)
      moreover have "drop_columns ks d = drop_columns ks df"
        using z[OF True] by (simp add: d drop_columns_def)
      ultimately show ?thesis by simp
    next
      case False
      with True have "col \<in> set (labels (drop_columns ks df))" by (simp add: labels_drop_columns)
      then have "fill_categorical col (drop_columns ks df) =
          Inr ((drop_columns ks df)\<lparr>cols := map ?u (cols (drop_columns ks df))\<rparr>)"
        by (simp add: fill_categorical_def)
      moreover have "(drop_columns ks df)\<lparr>cols := map ?u (cols (drop_columns ks df))\<rparr> = drop_columns ks d"
        by (simp add: d drop_columns_def m)
      ultimately show ?thesis by simp
    qed
  qed
qed

lemma add_nama_bulan_drop:
  assumes "add_nama_bulan df = Inr d" and "''tanggal'' \<notin> set ks" and "''Nama_Bulan'' \<notin> set ks"
  shows "add_nama_bulan (drop_columns ks df) = Inr (drop_columns ks d)"
  using assms by (auto simp: add_nama_bulan_Inr named_drop_columns setitem_drop_columns)

lemma keuangan_try_drop:
  assumes "keuangan_try df = Inr t" and "''tanggal'' \<notin> set ks" and "''Nama_Bulan'' \<notin> set ks"
  shows "keuangan_try (drop_columns ks df) = Inr (drop_columns ks t)"
proof -
  from assms(1) obtain d1 d2 d3 d4 d5 d6 d7 d8 where
    s1: "convert_tanggal df = Inr d1" and
    s2: "dropna [''tanggal''] d1 = Inr d2" and
    s3: "clean_numeric ''pemasukan'' d2 = Inr d3" and
    s4: "clean_numeric ''pengeluaran'' d3 = Inr d4" and
    s5: "clean_numeric ''jumlahair'' d4 = Inr d5" and
    s6: "fill_categorical ''nopol'' d5 = Inr d6" and
    s7: "fill_categorical ''sopir'' d6 = Inr d7" and
    s8: "fill_categorical ''jenis transaksi'' d7 = Inr d8" and
    s9: "add_nama_bulan d8 = Inr t"
    by (auto simp: keuangan_try_def and_then_Inr)
  show ?thesis
    by (simp add: keuangan_try_def and_then_def
        convert_tanggal_drop[OF s1 assms(2)] dropna_drop[OF s2 assms(2)]
        clean_numeric_drop[OF s3] clean_numeric_drop[OF s4] clean_numeric_drop[OF s5]
        fill_categorical_drop[OF s6] fill_categorical_drop[OF s7] fill_categorical_drop[OF s8]
        add_nama_bulan_drop[OF s9 assms(2) assms(3)])
qed

lemma keuangan_columns_drop_canonical:
  "keuangan_columns (object_cells (drop_canonical ks raw)) =
   drop_columns ks (keuangan_columns (object_cells raw))"
  by (simp add: keuangan_columns_def object_cells_def drop_canonical_def drop_columns_def
      rename_columns_def normalise_columns_def canonical_def filter_map o_def case_prod_unfold)

lemma compress_upt_len:
  "compress (map P [0 ..< n]) xs = map (nth xs) (filter (\<lambda>i. P i \<and> i < length xs) [0 ..< n])"
proof -
  have "compress (map P [0 ..< n]) xs = map (nth xs) (filter P [0 ..< min n (length xs)])"
    by (simp add: compress_def zip_upt_map filter_map o_def)
  also have "filter P [0 ..< min n (length xs)] =
      filter (\<lambda>i. P i \<and> i < length xs) [0 ..< min n (length xs)]"
    by (rule filter_cong) auto
  also have "\<dots> = filter (\<lambda>i. P i \<and> i < length xs) [0 ..< n]"
    by (rule filter_upt_min) simp
  finally show ?thesis .
qed

lemma loaded_column:
  assumes "load_keuangan_data (Inr raw) = (ui, Returned (Some t))" and "k \<noteq> ''Nama_Bulan''"
  shows "\<exists>cd. named ''tanggal'' (keuangan_columns raw) = [cd] \<and>
     index t = map (nth (index raw))
                 (filter (\<lambda>i. i < length cd \<and> date_of (cd ! i) \<noteq> None) [0 ..< length (index raw)]) \<and>
     named k t =
       map (\<lambda>c. map (\<lambda>i. clean_cell k (object_cell (c ! i)))
                  (filter (\<lambda>i. (i < length cd \<and> date_of (cd ! i) \<noteq> None) \<and> i < length c)
                     [0 ..< length (index raw)]))
         (named k (keuangan_columns raw))"
proof -
  let ?df = "keuangan_columns (object_cells raw)"
  let ?n = "length (index raw)"
  from assms(1) have "keuangan_try ?df = Inr t" by (simp add: load_keuangan_data_Some)
  from keuangan_try_result[OF this] obtain c' where c': "named ''tanggal'' ?df = [c']"
    and i: "index t = compress (notna_mask [map to_datetime c'] (length (index ?df))) (index ?df)"
    and n: "\<And>k. k \<noteq> ''Nama_Bulan'' \<Longrightarrow> named k t =
           map (\<lambda>col. map (clean_cell k) (compress (notna_mask [map to_datetime c'] (length (index ?df))) col))
             (named k ?df)"
    by blast
  from c' obtain cd where cd: "named ''tanggal'' (keuangan_columns raw) = [cd]" and cc: "c' = map object_cell cd"
    by (auto simp: named_keuangan_columns_object)
  let ?P = "\<lambda>i. i < length cd \<and> date_of (cd ! i) \<noteq> None"
  have idx: "index ?df = index raw" by (rule index_keuangan_columns_object)
  have m: "notna_mask [map to_datetime c'] ?n = map ?P [0 ..< ?n]"
    unfolding cc by (rule date_mask)
  have "index t = compress (map ?P [0 ..< ?n]) (index raw)"
    using i unfolding idx m .
  also have "\<dots> = map (nth (index raw)) (filter ?P [0 ..< ?n])"
    by (rule compress_upt) simp
  finally have 1: "index t = map (nth (index raw)) (filter ?P [0 ..< ?n])" .
  have col: "map (clean_cell k) (compress (map ?P [0 ..< ?n]) (map object_cell c)) =
      map (\<lambda>i. clean_cell k (object_cell (c ! i))) (filter (\<lambda>i. ?P i \<and> i < length c) [0 ..< ?n])"
    for c
    unfolding compress_upt_len by simp
  have "named k t = map (\<lambda>col. map (clean_cell k) (compress (map ?P [0 ..< ?n]) col)) (named k ?df)"
    using n[OF assms(2)] unfolding idx m .
  then have 2: "named k t = map (\<lambda>c. map (\<lambda>i. clean_cell k (object_cell (c ! i)))
                  (filter (\<lambda>i. ?P i \<and> i < length c) [0 ..< ?n])) (named k (keuangan_columns raw))"
    unfolding named_keuangan_columns_object by (simp only: map_map o_def col)
  from cd 1 2 show ?thesis by blast
qed

lemma clean_categorical:
  assumes "k = ''nopol'' \<or> k = ''sopir'' \<or> k = ''jenis transaksi''"
  shows "clean_cell k (object_cell y) = categorical y"
  using assms by (auto simp: clean_cell_def object_cell_def categorical_def split: csv_cell.splits)

section \<open>The claims\<close>

text \<open>
  C3. A financial file whose one row has the date cell \<^verbatim>\<open>15/03/2024\<close>, the income cell
  \<^verbatim>\<open>Rp1.500.000\<close> and the plate \<^verbatim>\<open>B1234XY\<close> loads; the record has the date
  2024-03-15, the income 1500000 (prefix and separators stripped before parsing) and
  the month bucket \<^verbatim>\<open>2024-03 (March)\<close>. The headers are written as a file has them,
  capitalised and with the plate under its alias.
\<close>

theorem scenario_rp_row:
  "load_keuangan_data
     (Inr \<lparr>index = [0],
           cols = [(''Tanggal'', [Str ''15/03/2024'']), (''Pemasukan'', [Str ''Rp1.500.000'']),
                   (''Plat Nomor'', [Str ''B1234XY''])]\<rparr>) =
   ([], Returned (Some
     \<lparr>index = [0],
      cols = [(''tanggal'', [Timestamp \<lparr>year = 2024, month = 3, day = 15\<rparr>]),
              (''pemasukan'', [Number (Fin 1500000)]),
              (''nopol'', [Text ''B1234XY'']),
              (''Nama_Bulan'', [Text ''2024-03 (March)''])]\<rparr>))"
  by (simp add: keuangan_defs frame_defs num_defs date_defs text_defs)

text \<open>
  C6. A GPS file whose one row has the latitude \<^verbatim>\<open>1,234\<close> and the longitude
  \<^verbatim>\<open>103,456\<close> loads: the decimal comma is replaced by a point before parsing, and the
  row is kept with latitude 1.234 and longitude 103.456.
\<close>

theorem scenario_decimal_comma:
  "load_gps_data
     (Inr \<lparr>index = [0],
           cols = [(''Latitude'', [Str ''1,234'']), (''Longitude'', [Str ''103,456''])]\<rparr>) =
   ([], Returned (Some
     \<lparr>index = [0],
      cols = [(''latitude'', [Number (Fin (1234 / 1000))]),
              (''longitude'', [Number (Fin (103456 / 1000))])]\<rparr>))"
  by (simp add: gps_defs frame_defs num_defs text_defs)

text \<open>
  C8. When the financial file cannot be read, whatever the exception of the read, the
  loader shows the message naming the file and the cause, and then lets an
  \<^verbatim>\<open>UnboundLocalError\<close> escape: it does not return.
\<close>

theorem failed_read_escapes:
  "load_keuangan_data (Inl e) =
     ([st_error (''Gagal memuat keuangan_data.csv: '' @ str_exn e)], Raised (UnboundLocalError ''df''))"
  by (simp add: load_keuangan_data_def)

text \<open>
  C4. After a successful financial load there was exactly one date column. The rows of
  the table are the rows of the file whose date cell parses with the day/month/year
  format, in order: a row whose date is missing or unparsable is absent. The date
  column of the table holds the parsed dates of these rows, each a valid date.
\<close>

theorem dates_of_loaded_table:
  assumes "load_keuangan_data (Inr raw) = (ui, Returned (Some t))"
  shows "\<exists>c. getitem (keuangan_columns raw) ''tanggal'' = Series c \<and>
           index t = [index raw ! i. i \<leftarrow> [0 ..< length (index raw)],
                        i < length c \<and> date_of (c ! i) \<noteq> None] \<and>
           getitem t ''tanggal'' =
             Series [Timestamp (the (date_of (c ! i))). i \<leftarrow> [0 ..< length (index raw)],
                        i < length c \<and> date_of (c ! i) \<noteq> None] \<and>
           (\<forall>x \<in> cells_of ''tanggal'' t. \<exists>d. x = Timestamp d \<and> valid_date d)"
proof -
  let ?df = "keuangan_columns (object_cells raw)"
  let ?n = "length (index raw)"
  from assms have "keuangan_try ?df = Inr t" by (simp add: load_keuangan_data_Some)
  from keuangan_try_result[OF this] obtain c' where c': "named ''tanggal'' ?df = [c']"
    and i: "index t = compress (notna_mask [map to_datetime c'] (length (index ?df))) (index ?df)"
    and n: "\<And>k. k \<noteq> ''Nama_Bulan'' \<Longrightarrow> named k t =
           map (\<lambda>col. map (clean_cell k) (compress (notna_mask [map to_datetime c'] (length (index ?df))) col))
             (named k ?df)"
    by blast
  from c' obtain c where c: "named ''tanggal'' (keuangan_columns raw) = [c]" and cc: "c' = map object_cell c"
    by (auto simp: named_keuangan_columns_object)
  let ?P = "\<lambda>i. i < length c \<and> date_of (c ! i) \<noteq> None"
  let ?I = "filter ?P [0 ..< ?n]"
  have idx: "index ?df = index raw" by (rule index_keuangan_columns_object)
  have m: "notna_mask [map to_datetime c'] ?n = map ?P [0 ..< ?n]"
    unfolding cc by (rule date_mask)
  have 1: "getitem (keuangan_columns raw) ''tanggal'' = Series c"
    by (simp add: getitem_Series c)
  have "index t = compress (map ?P [0 ..< ?n]) (index raw)"
    using i unfolding idx m .
  also have "\<dots> = map (nth (index raw)) ?I"
    by (rule compress_upt) simp
  finally have 2: "index t = [index raw ! i. i \<leftarrow> [0 ..< ?n], ?P i]"
    by (simp only: comprehension_filter)
  have "named ''tanggal'' t = [map (clean_cell ''tanggal'') (compress (map ?P [0 ..< ?n]) c')]"
    using n[of "''tanggal''"] unfolding idx m c' by simp
  also have "compress (map ?P [0 ..< ?n]) c' = map (nth c') ?I"
    by (rule compress_upt) (simp add: cc)
  also have "map (clean_cell ''tanggal'') (map (nth c') ?I) =
      map (\<lambda>i. Timestamp (the (date_of (c ! i)))) ?I"
    by (auto simp: clean_cell_def cc to_datetime_object)
  finally have nt: "named ''tanggal'' t = [map (\<lambda>i. Timestamp (the (date_of (c ! i)))) ?I]" .
  have 3: "getitem t ''tanggal'' =
      Series [Timestamp (the (date_of (c ! i))). i \<leftarrow> [0 ..< ?n], ?P i]"
    unfolding getitem_Series nt by (simp only: comprehension_filter)
  have 4: "\<forall>x \<in> cells_of ''tanggal'' t. \<exists>d. x = Timestamp d \<and> valid_date d"
    by (auto simp: cells_of_def nt date_of_valid)
  from 1 2 3 4 show ?thesis by blast
qed

theorem dates_of_loaded_table_witness:
  "load_keuangan_data (Inr (\<lparr>index = [0, 1, 2],
           cols = [(''Tanggal'', [Missing, Str ''not-a-date'', Str ''15/03/2024''])]\<rparr>)) = ([], Returned (Some (\<lparr>index = [2],
      cols = [(''tanggal'', [Timestamp \<lparr>year = 2024, month = 3, day = 15\<rparr>]),
              (''Nama_Bulan'', [Text ''2024-03 (March)''])]\<rparr>))) \<and>
   (\<exists>c. getitem (keuangan_columns (\<lparr>index = [0, 1, 2],
           cols = [(''Tanggal'', [Missing, Str ''not-a-date'', Str ''15/03/2024''])]\<rparr>)) ''tanggal'' = Series c \<and>
        index (\<lparr>index = [2],
      cols = [(''tanggal'', [Timestamp \<lparr>year = 2024, month = 3, day = 15\<rparr>]),
              (''Nama_Bulan'', [Text ''2024-03 (March)''])]\<rparr>) = [index (\<lparr>index = [0, 1, 2],
           cols = [(''Tanggal'', [Missing, Str ''not-a-date'', Str ''15/03/2024''])]\<rparr>) ! i. i \<leftarrow> [0 ..< length (index (\<lparr>index = [0, 1, 2],
           cols = [(''Tanggal'', [Missing, Str ''not-a-date'', Str ''15/03/2024''])]\<rparr>))],
                        i < length c \<and> date_of (c ! i) \<noteq> None] \<and>
        getitem (\<lparr>index = [2],
      cols = [(''tanggal'', [Timestamp \<lparr>year = 2024, month = 3, day = 15\<rparr>]),
              (''Nama_Bulan'', [Text ''2024-03 (March)''])]\<rparr>) ''tanggal'' =
          Series [Timestamp (the (date_of (c ! i))). i \<leftarrow> [0 ..< length (index (\<lparr>index = [0, 1, 2],
           cols = [(''Tanggal'', [Missing, Str ''not-a-date'', Str ''15/03/2024''])]\<rparr>))],
                        i < length c \<and> date_of (c ! i) \<noteq> None] \<and>
        (\<forall>x \<in> cells_of ''tanggal'' (\<lparr>index = [2],
      cols = [(''tanggal'', [Timestamp \<lparr>year = 2024, month = 3, day = 15\<rparr>]),
              (''Nama_Bulan'', [Text ''2024-03 (March)''])]\<rparr>). \<exists>d. x = Timestamp d \<and> valid_date d))"
proof -
  have e: "load_keuangan_data (Inr (\<lparr>index = [0, 1, 2],
           cols = [(''Tanggal'', [Missing, Str ''not-a-date'', Str ''15/03/2024''])]\<rparr>)) = ([], Returned (Some (\<lparr>index = [2],
      cols = [(''tanggal'', [Timestamp \<lparr>year = 2024, month = 3, day = 15\<rparr>]),
              (''Nama_Bulan'', [Text ''2024-03 (March)''])]\<rparr>)))"
    by (simp add: keuangan_defs frame_defs num_defs date_defs text_defs upt_rec)
  show ?thesis by (rule conjI[OF e dates_of_loaded_table[OF e]])
qed

text \<open>
  C1, as the code has it. Take a loaded financial table and one of the labels of the
  income, expense and water volume columns. The column of that label in the table, if
  the file has one, holds for each kept row \<open>i\<close> the number that lines 67 and 68 make of
  the cell of row \<open>i\<close>: the printed text of that cell (what \<^verbatim>\<open>astype(str)\<close> gives, so
  \<^verbatim>\<open>1000.0\<close> for a number of a float64 column), without \<^verbatim>\<open>Rp\<close> and points, parsed;
  0 where it does not parse. It is never missing. It is not negative when the printed
  text holds no minus sign. The loader keeps the sign of a negative cell.
\<close>

theorem numeric_fields_of_loaded_table:
  assumes "load_keuangan_data (Inr raw) = (ui, Returned (Some t))"
    and "k = ''pemasukan'' \<or> k = ''pengeluaran'' \<or> k = ''jumlahair''"
  shows "\<exists>cd. getitem (keuangan_columns raw) ''tanggal'' = Series cd \<and>
     index t = [index raw ! i. i \<leftarrow> [0 ..< length (index raw)],
                  i < length cd \<and> date_of (cd ! i) \<noteq> None] \<and>
     named k t =
       map (\<lambda>c. [Number (currency (c ! i)). i \<leftarrow> [0 ..< length (index raw)],
                   (i < length cd \<and> date_of (cd ! i) \<noteq> None) \<and> i < length c])
         (named k (keuangan_columns raw)) \<and>
     (\<forall>y. CHR ''-'' \<notin> set (printed y) \<longrightarrow> num_nonneg (currency y))"
proof -
  from assms(2) have k: "k \<noteq> ''Nama_Bulan''" and c: "\<And>z. clean_cell k z = currency_cell z"
    by (auto simp: clean_cell_def)
  from loaded_column[OF assms(1) k] obtain cd where
    1: "named ''tanggal'' (keuangan_columns raw) = [cd]" and
    2: "index t = map (nth (index raw))
                 (filter (\<lambda>i. i < length cd \<and> date_of (cd ! i) \<noteq> None) [0 ..< length (index raw)])" and
    3: "named k t =
       map (\<lambda>c. map (\<lambda>i. clean_cell k (object_cell (c ! i)))
                  (filter (\<lambda>i. (i < length cd \<and> date_of (cd ! i) \<noteq> None) \<and> i < length c)
                     [0 ..< length (index raw)]))
         (named k (keuangan_columns raw))"
    by blast
  have a: "getitem (keuangan_columns raw) ''tanggal'' = Series cd"
    by (simp add: getitem_Series 1)
  have b: "index t = [index raw ! i. i \<leftarrow> [0 ..< length (index raw)],
                  i < length cd \<and> date_of (cd ! i) \<noteq> None]"
    unfolding 2 by (simp only: comprehension_filter)
  have d: "named k t =
       map (\<lambda>c. [Number (currency (c ! i)). i \<leftarrow> [0 ..< length (index raw)],
                   (i < length cd \<and> date_of (cd ! i) \<noteq> None) \<and> i < length c])
         (named k (keuangan_columns raw))"
    unfolding 3 c currency_cell_object by (simp only: comprehension_filter)
  have e: "\<forall>y. CHR ''-'' \<notin> set (printed y) \<longrightarrow> num_nonneg (currency y)"
    using currency_nonneg by blast
  from a b d e show ?thesis by blast
qed

theorem numeric_fields_of_loaded_table_witness:
  "load_keuangan_data (Inr (\<lparr>index = [0, 1],
      cols = [(''Tanggal'', [Str ''15/03/2024'', Str ''not-a-date'']),
              (''Pemasukan'', [Str ''Rp1.500.000'', Str ''Rp5'']),
              (''Pengeluaran'', [CsvNumber ''1000.0'', CsvNumber ''2.5''])]\<rparr>)) = ([], Returned (Some (\<lparr>index = [0],
      cols = [(''tanggal'', [Timestamp \<lparr>year = 2024, month = 3, day = 15\<rparr>]),
              (''pemasukan'', [Number (Fin 1500000)]),
              (''pengeluaran'', [Number (Fin 10000)]),
              (''Nama_Bulan'', [Text ''2024-03 (March)''])]\<rparr>))) \<and>
   (\<exists>cd. getitem (keuangan_columns (\<lparr>index = [0, 1],
      cols = [(''Tanggal'', [Str ''15/03/2024'', Str ''not-a-date'']),
              (''Pemasukan'', [Str ''Rp1.500.000'', Str ''Rp5'']),
              (''Pengeluaran'', [CsvNumber ''1000.0'', CsvNumber ''2.5''])]\<rparr>)) ''tanggal'' = Series cd \<and>
     index (\<lparr>index = [0],
      cols = [(''tanggal'', [Timestamp \<lparr>year = 2024, month = 3, day = 15\<rparr>]),
              (''pemasukan'', [Number (Fin 1500000)]),
              (''pengeluaran'', [Number (Fin 10000)]),
              (''Nama_Bulan'', [Text ''2024-03 (March)''])]\<rparr>) = [index (\<lparr>index = [0, 1],
      cols = [(''Tanggal'', [Str ''15/03/2024'', Str ''not-a-date'']),
              (''Pemasukan'', [Str ''Rp1.500.000'', Str ''Rp5'']),
              (''Pengeluaran'', [CsvNumber ''1000.0'', CsvNumber ''2.5''])]\<rparr>) ! i. i \<leftarrow> [0 ..< length (index (\<lparr>index = [0, 1],
      cols = [(''Tanggal'', [Str ''15/03/2024'', Str ''not-a-date'']),
              (''Pemasukan'', [Str ''Rp1.500.000'', Str ''Rp5'']),
              (''Pengeluaran'', [CsvNumber ''1000.0'', CsvNumber ''2.5''])]\<rparr>))],
                  i < length cd \<and> date_of (cd ! i) \<noteq> None] \<and>
     named ''pengeluaran'' (\<lparr>index = [0],
      cols = [(''tanggal'', [Timestamp \<lparr>year = 2024, month = 3, day = 15\<rparr>]),
              (''pemasukan'', [Number (Fin 1500000)]),
              (''pengeluaran'', [Number (Fin 10000)]),
              (''Nama_Bulan'', [Text ''2024-03 (March)''])]\<rparr>) =
       map (\<lambda>c. [Number (currency (c ! i)). i \<leftarrow> [0 ..< length (index (\<lparr>index = [0, 1],
      cols = [(''Tanggal'', [Str ''15/03/2024'', Str ''not-a-date'']),
              (''Pemasukan'', [Str ''Rp1.500.000'', Str ''Rp5'']),
              (''Pengeluaran'', [CsvNumber ''1000.0'', CsvNumber ''2.5''])]\<rparr>))],
                   (i < length cd \<and> date_of (cd ! i) \<noteq> None) \<and> i < length c])
         (named ''pengeluaran'' (keuangan_columns (\<lparr>index = [0, 1],
      cols = [(''Tanggal'', [Str ''15/03/2024'', Str ''not-a-date'']),
              (''Pemasukan'', [Str ''Rp1.500.000'', Str ''Rp5'']),
              (''Pengeluaran'', [CsvNumber ''1000.0'', CsvNumber ''2.5''])]\<rparr>))) \<and>
     (\<forall>y. CHR ''-'' \<notin> set (printed y) \<longrightarrow> num_nonneg (currency y)))"
proof -
  have e: "load_keuangan_data (Inr (\<lparr>index = [0, 1],
      cols = [(''Tanggal'', [Str ''15/03/2024'', Str ''not-a-date'']),
              (''Pemasukan'', [Str ''Rp1.500.000'', Str ''Rp5'']),
              (''Pengeluaran'', [CsvNumber ''1000.0'', CsvNumber ''2.5''])]\<rparr>)) = ([], Returned (Some (\<lparr>index = [0],
      cols = [(''tanggal'', [Timestamp \<lparr>year = 2024, month = 3, day = 15\<rparr>]),
              (''pemasukan'', [Number (Fin 1500000)]),
              (''pengeluaran'', [Number (Fin 10000)]),
              (''Nama_Bulan'', [Text ''2024-03 (March)''])]\<rparr>)))"
    by (simp add: keuangan_defs frame_defs num_defs date_defs text_defs upt_rec)
  show ?thesis
    by (rule conjI[OF e numeric_fields_of_loaded_table[OF e disjI2[OF disjI1[OF refl]]]])
qed

text \<open>
  C1 as stated fails: the income cell \<^verbatim>\<open>-5\<close> (a column of integers) loads as the
  number -5.
\<close>

theorem negative_income_counterexample:
  "load_keuangan_data (Inr (\<lparr>index = [0],
      cols = [(''tanggal'', [Str ''15/03/2024'']), (''pemasukan'', [CsvNumber ''-5''])]\<rparr>)) = ([], Returned (Some (\<lparr>index = [0],
      cols = [(''tanggal'', [Timestamp \<lparr>year = 2024, month = 3, day = 15\<rparr>]),
              (''pemasukan'', [Number (Fin (- 5))]),
              (''Nama_Bulan'', [Text ''2024-03 (March)''])]\<rparr>))) \<and>
   Number (Fin (- 5)) \<in> cells_of ''pemasukan'' (\<lparr>index = [0],
      cols = [(''tanggal'', [Timestamp \<lparr>year = 2024, month = 3, day = 15\<rparr>]),
              (''pemasukan'', [Number (Fin (- 5))]),
              (''Nama_Bulan'', [Text ''2024-03 (March)''])]\<rparr>) \<and>
   \<not> num_nonneg (Fin (- 5))"
  by (simp add: keuangan_defs frame_defs num_defs date_defs text_defs upt_rec cells_of_def)

text \<open>
  C7, as the code has it. Take a loaded financial table and one of the labels of the
  plate, driver and transaction type columns. Each column of that label in the table
  holds for each kept row \<open>i\<close> what line 73 makes of the cell of row \<open>i\<close>: the text
  \<^verbatim>\<open>Tidak Diketahui\<close> for a missing cell, and the cell as it was read otherwise, a text
  or a number. No cell is missing, and a text is not empty, given that the column of
  the file holds no empty text (\<^verbatim>\<open>read_csv\<close> reads an empty field as missing).
\<close>

theorem categorical_fields_of_loaded_table:
  assumes "load_keuangan_data (Inr raw) = (ui, Returned (Some t))"
    and "k = ''nopol'' \<or> k = ''sopir'' \<or> k = ''jenis transaksi''"
  shows "\<exists>cd. getitem (keuangan_columns raw) ''tanggal'' = Series cd \<and>
     index t = [index raw ! i. i \<leftarrow> [0 ..< length (index raw)],
                  i < length cd \<and> date_of (cd ! i) \<noteq> None] \<and>
     named k t =
       map (\<lambda>c. [categorical (c ! i). i \<leftarrow> [0 ..< length (index raw)],
                   (i < length cd \<and> date_of (cd ! i) \<noteq> None) \<and> i < length c])
         (named k (keuangan_columns raw)) \<and>
     (\<forall>x \<in> cells_of k t.
         x \<noteq> NA \<and> (\<forall>s. x = Text s \<longrightarrow> Str [] \<notin> cells_of k (keuangan_columns raw) \<longrightarrow> s \<noteq> []))"
proof -
  from assms(2) have k: "k \<noteq> ''Nama_Bulan''" by auto
  from loaded_column[OF assms(1) k] obtain cd where
    1: "named ''tanggal'' (keuangan_columns raw) = [cd]" and
    2: "index t = map (nth (index raw))
                 (filter (\<lambda>i. i < length cd \<and> date_of (cd ! i) \<noteq> None) [0 ..< length (index raw)])" and
    3: "named k t =
       map (\<lambda>c. map (\<lambda>i. clean_cell k (object_cell (c ! i)))
                  (filter (\<lambda>i. (i < length cd \<and> date_of (cd ! i) \<noteq> None) \<and> i < length c)
                     [0 ..< length (index raw)]))
         (named k (keuangan_columns raw))"
    by blast
  have a: "getitem (keuangan_columns raw) ''tanggal'' = Series cd"
    by (simp add: getitem_Series 1)
  have b: "index t = [index raw ! i. i \<leftarrow> [0 ..< length (index raw)],
                  i < length cd \<and> date_of (cd ! i) \<noteq> None]"
    unfolding 2 by (simp only: comprehension_filter)
  have d: "named k t =
       map (\<lambda>c. [categorical (c ! i). i \<leftarrow> [0 ..< length (index raw)],
                   (i < length cd \<and> date_of (cd ! i) \<noteq> None) \<and> i < length c])
         (named k (keuangan_columns raw))"
    unfolding 3 clean_categorical[OF assms(2)] by (simp only: comprehension_filter)
  have e: "x \<noteq> NA \<and> (\<forall>s. x = Text s \<longrightarrow> Str [] \<notin> cells_of k (keuangan_columns raw) \<longrightarrow> s \<noteq> [])"
    if "x \<in> cells_of k t" for x
  proof -
    from cells_of_loaded[OF assms(1) k that] obtain y where
      y: "y \<in> cells_of k (keuangan_columns raw)" and x: "x = categorical y"
      by (auto simp: clean_categorical[OF assms(2)])
    show ?thesis using y x by (cases y) (auto simp: categorical_def)
  qed
  from a b d e show ?thesis by blast
qed

theorem categorical_fields_of_loaded_table_witness:
  "load_keuangan_data (Inr (\<lparr>index = [0, 1],
      cols = [(''tanggal'', [Str ''15/03/2024'', Str ''16/03/2024'']),
              (''Sopir'', [Missing, Str ''Budi''])]\<rparr>)) = ([], Returned (Some (\<lparr>index = [0, 1],
      cols = [(''tanggal'', [Timestamp \<lparr>year = 2024, month = 3, day = 15\<rparr>,
                             Timestamp \<lparr>year = 2024, month = 3, day = 16\<rparr>]),
              (''sopir'', [Text ''Tidak Diketahui'', Text ''Budi'']),
              (''Nama_Bulan'', [Text ''2024-03 (March)'', Text ''2024-03 (March)''])]\<rparr>))) \<and>
   (\<exists>cd. getitem (keuangan_columns (\<lparr>index = [0, 1],
      cols = [(''tanggal'', [Str ''15/03/2024'', Str ''16/03/2024'']),
              (''Sopir'', [Missing, Str ''Budi''])]\<rparr>)) ''tanggal'' = Series cd \<and>
     index (\<lparr>index = [0, 1],
      cols = [(''tanggal'', [Timestamp \<lparr>year = 2024, month = 3, day = 15\<rparr>,
                             Timestamp \<lparr>year = 2024, month = 3, day = 16\<rparr>]),
              (''sopir'', [Text ''Tidak Diketahui'', Text ''Budi'']),
              (''Nama_Bulan'', [Text ''2024-03 (March)'', Text ''2024-03 (March)''])]\<rparr>) = [index (\<lparr>index = [0, 1],
      cols = [(''tanggal'', [Str ''15/03/2024'', Str ''16/03/2024'']),
              (''Sopir'', [Missing, Str ''Budi''])]\<rparr>) ! i. i \<leftarrow> [0 ..< length (index (\<lparr>index = [0, 1],
      cols = [(''tanggal'', [Str ''15/03/2024'', Str ''16/03/2024'']),
              (''Sopir'', [Missing, Str ''Budi''])]\<rparr>))],
                  i < length cd \<and> date_of (cd ! i) \<noteq> None] \<and>
     named ''sopir'' (\<lparr>index = [0, 1],
      cols = [(''tanggal'', [Timestamp \<lparr>year = 2024, month = 3, day = 15\<rparr>,
                             Timestamp \<lparr>year = 2024, month = 3, day = 16\<rparr>]),
              (''sopir'', [Text ''Tidak Diketahui'', Text ''Budi'']),
              (''Nama_Bulan'', [Text ''2024-03 (March)'', Text ''2024-03 (March)''])]\<rparr>) =
       map (\<lambda>c. [categorical (c ! i). i \<leftarrow> [0 ..< length (index (\<lparr>index = [0, 1],
      cols = [(''tanggal'', [Str ''15/03/2024'', Str ''16/03/2024'']),
              (''Sopir'', [Missing, Str ''Budi''])]\<rparr>))],
                   (i < length cd \<and> date_of (cd ! i) \<noteq> None) \<and> i < length c])
         (named ''sopir'' (keuangan_columns (\<lparr>index = [0, 1],
      cols = [(''tanggal'', [Str ''15/03/2024'', Str ''16/03/2024'']),
              (''Sopir'', [Missing, Str ''Budi''])]\<rparr>))) \<and>
     (\<forall>x \<in> cells_of ''sopir'' (\<lparr>index = [0, 1],
      cols = [(''tanggal'', [Timestamp \<lparr>year = 2024, month = 3, day = 15\<rparr>,
                             Timestamp \<lparr>year = 2024, month = 3, day = 16\<rparr>]),
              (''sopir'', [Text ''Tidak Diketahui'', Text ''Budi'']),
              (''Nama_Bulan'', [Text ''2024-03 (March)'', Text ''2024-03 (March)''])]\<rparr>).
         x \<noteq> NA \<and> (\<forall>s. x = Text s \<longrightarrow> Str [] \<notin> cells_of ''sopir'' (keuangan_columns (\<lparr>index = [0, 1],
      cols = [(''tanggal'', [Str ''15/03/2024'', Str ''16/03/2024'']),
              (''Sopir'', [Missing, Str ''Budi''])]\<rparr>)) \<longrightarrow> s \<noteq> [])))"
proof -
  have e: "load_keuangan_data (Inr (\<lparr>index = [0, 1],
      cols = [(''tanggal'', [Str ''15/03/2024'', Str ''16/03/2024'']),
              (''Sopir'', [Missing, Str ''Budi''])]\<rparr>)) = ([], Returned (Some (\<lparr>index = [0, 1],
      cols = [(''tanggal'', [Timestamp \<lparr>year = 2024, month = 3, day = 15\<rparr>,
                             Timestamp \<lparr>year = 2024, month = 3, day = 16\<rparr>]),
              (''sopir'', [Text ''Tidak Diketahui'', Text ''Budi'']),
              (''Nama_Bulan'', [Text ''2024-03 (March)'', Text ''2024-03 (March)''])]\<rparr>)))"
    by (simp add: keuangan_defs frame_defs num_defs date_defs text_defs upt_rec)
  show ?thesis
    by (rule conjI[OF e categorical_fields_of_loaded_table[OF e disjI2[OF disjI1[OF refl]]]])
qed

text \<open>
  C7 as stated fails: line 73 fills the missing cells and converts nothing. In a plate
  column that \<^verbatim>\<open>read_csv\<close> has typed float64, the cell 123.0 stays a number, not a
  text.
\<close>

theorem numeric_plate_counterexample:
  "load_keuangan_data (Inr (\<lparr>index = [0, 1],
      cols = [(''tanggal'', [Str ''15/03/2024'', Str ''16/03/2024'']),
              (''Plat Nomor'', [CsvNumber ''123.0'', Missing])]\<rparr>)) = ([], Returned (Some (\<lparr>index = [0, 1],
      cols = [(''tanggal'', [Timestamp \<lparr>year = 2024, month = 3, day = 15\<rparr>,
                             Timestamp \<lparr>year = 2024, month = 3, day = 16\<rparr>]),
              (''nopol'', [Numeric ''123.0'', Text ''Tidak Diketahui'']),
              (''Nama_Bulan'', [Text ''2024-03 (March)'', Text ''2024-03 (March)''])]\<rparr>))) \<and>
   Numeric ''123.0'' \<in> cells_of ''nopol'' (\<lparr>index = [0, 1],
      cols = [(''tanggal'', [Timestamp \<lparr>year = 2024, month = 3, day = 15\<rparr>,
                             Timestamp \<lparr>year = 2024, month = 3, day = 16\<rparr>]),
              (''nopol'', [Numeric ''123.0'', Text ''Tidak Diketahui'']),
              (''Nama_Bulan'', [Text ''2024-03 (March)'', Text ''2024-03 (March)''])]\<rparr>) \<and>
   Numeric ''123.0'' \<notin> range Text"
  by (auto simp: keuangan_defs frame_defs num_defs date_defs text_defs upt_rec cells_of_def)

text \<open>
  C9. A financial file that is read but has no column whose normalised and renamed
  label is \<^verbatim>\<open>tanggal\<close> does not load: the loader shows the failure message with the
  cause \<^verbatim>\<open>'tanggal'\<close>, writes the labels it found, and returns \<^verbatim>\<open>None\<close>.
\<close>

theorem missing_tanggal_is_load_failure:
  assumes "''tanggal'' \<notin> set (labels (keuangan_columns raw))"
  shows "load_keuangan_data (Inr raw) =
     ([st_error (''Gagal memuat keuangan_data.csv: '' @ [CHR 0x27] @ ''tanggal'' @ [CHR 0x27]),
       st_write ''Struktur data yang ditemukan:'' (labels (keuangan_columns raw))],
      Returned None)"
proof -
  let ?df = "keuangan_columns (object_cells raw)"
  have "named ''tanggal'' ?df = []"
    using assms by (simp add: named_Nil labels_keuangan_columns_object)
  then have "keuangan_try ?df = Inl (KeyError ''tanggal'')"
    by (simp add: keuangan_try_def convert_tanggal_def getitem_def and_then_def)
  then show ?thesis
    by (simp add: load_keuangan_data_def Let_def str_exn_def labels_keuangan_columns_object)
qed

theorem missing_tanggal_is_load_failure_witness:
  "''tanggal'' \<notin> set (labels (keuangan_columns (\<lparr>index = [0],
      cols = [(''Tgl'', [Str ''15/03/2024'']), (''Pemasukan'', [CsvNumber ''1000''])]\<rparr>))) \<and>
   load_keuangan_data (Inr (\<lparr>index = [0],
      cols = [(''Tgl'', [Str ''15/03/2024'']), (''Pemasukan'', [CsvNumber ''1000''])]\<rparr>)) =
     ([st_error (''Gagal memuat keuangan_data.csv: '' @ [CHR 0x27] @ ''tanggal'' @ [CHR 0x27]),
       st_write ''Struktur data yang ditemukan:'' (labels (keuangan_columns (\<lparr>index = [0],
      cols = [(''Tgl'', [Str ''15/03/2024'']), (''Pemasukan'', [CsvNumber ''1000''])]\<rparr>)))],
      Returned None)"
proof -
  have h: "''tanggal'' \<notin> set (labels (keuangan_columns (\<lparr>index = [0],
      cols = [(''Tgl'', [Str ''15/03/2024'']), (''Pemasukan'', [CsvNumber ''1000''])]\<rparr>)))"
    by (simp add: keuangan_defs frame_defs text_defs)
  show ?thesis by (rule conjI[OF h missing_tanggal_is_load_failure[OF h]])
qed



text \<open>
  C2, as the code has it. When the GPS file is read, has one latitude and one longitude
  column, and no row passes the coordinate filters, the loader shows
  \<^verbatim>\<open>Tidak ada data GPS valid yang dapat ditampilkan\<close> and returns \<^verbatim>\<open>None\<close>, not an empty
  table. A failed read returns \<^verbatim>\<open>None\<close> as well, with another message.
\<close>

theorem no_valid_coordinates_returns_none:
  assumes "getitem (gps_columns raw) ''latitude'' = Series la"
    and "getitem (gps_columns raw) ''longitude'' = Series lo"
    and "\<forall>(a, b) \<in> set (zip la lo). \<not> valid_coordinates a b"
  shows "load_gps_data (Inr raw) =
           ([st_error ''Tidak ada data GPS valid yang dapat ditampilkan''], Returned None) \<and>
         load_gps_data (Inl e) =
           ([st_error (''Gagal memuat data_gps.csv: '' @ str_exn e)], Returned None) \<and>
         ''Tidak ada data GPS valid yang dapat ditampilkan'' \<noteq>
           ''Gagal memuat data_gps.csv: '' @ str_exn e"
proof -
  let ?df = "gps_columns (object_cells raw)"
  have a: "named ''latitude'' ?df = [map object_cell la]"
    and b: "named ''longitude'' ?df = [map object_cell lo]"
    using assms(1,2) by (simp_all add: getitem_Series named_gps_columns_object)
  then obtain t where t: "gps_try ?df = Inr t"
    using gps_try_Inr[of ?df] by blast
  from gps_try_result[OF t] a b
  have i: "index t = map (nth (index ?df))
      (filter (row_ok (map object_cell la) (map object_cell lo)) [0 ..< length (index ?df)])"
    by auto
  have "\<not> row_ok (map object_cell la) (map object_cell lo) j" for j
  proof
    assume "row_ok (map object_cell la) (map object_cell lo) j"
    then have j: "j < length la" "j < length lo" and v: "valid_coordinates (la ! j) (lo ! j)"
      by (simp_all add: row_ok_object)
    from j have "(la ! j, lo ! j) \<in> set (zip la lo)"
      by (auto simp: in_set_zip)
    with assms(3) v show False by auto
  qed
  then have "index t = []" unfolding i by simp
  then have "frame_empty t" by (simp add: frame_empty_def)
  with t have "load_gps_data (Inr raw) =
           ([st_error ''Tidak ada data GPS valid yang dapat ditampilkan''], Returned None)"
    by (simp add: load_gps_data_def and_then_def)
  then show ?thesis by (simp add: load_gps_data_Inl)
qed

theorem no_valid_coordinates_returns_none_witness:
  "getitem (gps_columns (\<lparr>index = [0],
      cols = [(''Latitude'', [CsvNumber ''95'']), (''Longitude'', [CsvNumber ''110''])]\<rparr>)) ''latitude'' = Series [CsvNumber ''95''] \<and>
   getitem (gps_columns (\<lparr>index = [0],
      cols = [(''Latitude'', [CsvNumber ''95'']), (''Longitude'', [CsvNumber ''110''])]\<rparr>)) ''longitude'' = Series [CsvNumber ''110''] \<and>
   \<not> valid_coordinates (CsvNumber ''95'') (CsvNumber ''110'') \<and>
   load_gps_data (Inr (\<lparr>index = [0],
      cols = [(''Latitude'', [CsvNumber ''95'']), (''Longitude'', [CsvNumber ''110''])]\<rparr>)) =
     ([st_error ''Tidak ada data GPS valid yang dapat ditampilkan''], Returned None) \<and>
   load_gps_data (Inl (ReadError ''No such file'')) =
     ([st_error (''Gagal memuat data_gps.csv: '' @ str_exn (ReadError ''No such file''))], Returned None) \<and>
   ''Tidak ada data GPS valid yang dapat ditampilkan'' \<noteq>
     ''Gagal memuat data_gps.csv: '' @ str_exn (ReadError ''No such file'')"
proof -
  have h1: "getitem (gps_columns (\<lparr>index = [0],
      cols = [(''Latitude'', [CsvNumber ''95'']), (''Longitude'', [CsvNumber ''110''])]\<rparr>)) ''latitude'' = Series [CsvNumber ''95'']"
    by (simp add: gps_defs frame_defs text_defs)
  have h2: "getitem (gps_columns (\<lparr>index = [0],
      cols = [(''Latitude'', [CsvNumber ''95'']), (''Longitude'', [CsvNumber ''110''])]\<rparr>)) ''longitude'' = Series [CsvNumber ''110'']"
    by (simp add: gps_defs frame_defs text_defs)
  have h3: "\<not> valid_coordinates (CsvNumber ''95'') (CsvNumber ''110'')"
    by (simp add: valid_coordinates_def coordinate_def printed_def num_defs text_defs)
  then have h4: "\<forall>(a, b) \<in> set (zip [CsvNumber ''95''] [CsvNumber ''110'']). \<not> valid_coordinates a b"
    by simp
  show ?thesis
    by (intro conjI h1 h2 h3
        no_valid_coordinates_returns_none[OF h1 h2 h4, of "ReadError ''No such file''", THEN conjunct1]
        no_valid_coordinates_returns_none[OF h1 h2 h4, of "ReadError ''No such file''", THEN conjunct2, THEN conjunct1]
        no_valid_coordinates_returns_none[OF h1 h2 h4, of "ReadError ''No such file''", THEN conjunct2, THEN conjunct2])
qed

text \<open>
  C2 as stated fails. For a GPS file whose one row has the latitude 95, the loader
  returns \<^verbatim>\<open>None\<close>, which is also what it returns for a failed read, and \<^verbatim>\<open>main\<close> stops
  the page although the financial table has loaded.
\<close>

theorem all_rows_invalid_counterexample:
  "load_gps_data (Inr (\<lparr>index = [0],
      cols = [(''Latitude'', [CsvNumber ''95'']), (''Longitude'', [CsvNumber ''110''])]\<rparr>)) =
     ([st_error ''Tidak ada data GPS valid yang dapat ditampilkan''], Returned None) \<and>
   snd (load_gps_data (Inl (ReadError ''No such file''))) = snd (load_gps_data (Inr (\<lparr>index = [0],
      cols = [(''Latitude'', [CsvNumber ''95'']), (''Longitude'', [CsvNumber ''110''])]\<rparr>))) \<and>
   (\<exists>t. load_keuangan_data (Inr (\<lparr>index = [0],
      cols = [(''Tanggal'', [Str ''15/03/2024'']), (''Pemasukan'', [Str ''Rp1.500.000''])]\<rparr>)) = ([], Returned (Some t))) \<and>
   main (Inr (\<lparr>index = [0],
      cols = [(''Tanggal'', [Str ''15/03/2024'']), (''Pemasukan'', [Str ''Rp1.500.000''])]\<rparr>)) (Inr (\<lparr>index = [0],
      cols = [(''Latitude'', [CsvNumber ''95'']), (''Longitude'', [CsvNumber ''110''])]\<rparr>)) =
     ([st_error ''Tidak ada data GPS valid yang dapat ditampilkan'', st_stop], Stopped)"
  by (simp add: main_def keuangan_defs gps_defs frame_defs num_defs date_defs text_defs upt_rec)

text \<open>
  C10. Take a financial file that loads, and remove from it any of the income, expense,
  water volume, plate, driver and transaction type columns (a column is known by its
  normalised and renamed label). The file still loads, and its table is the table of the
  full file without these columns: the steps for an absent column are skipped, and
  the rows and the other columns come out the same.
\<close>

theorem optional_columns_are_skipped:
  assumes "set ks \<subseteq> {''pemasukan'', ''pengeluaran'', ''jumlahair'', ''nopol'', ''sopir'', ''jenis transaksi''}"
    and "load_keuangan_data (Inr raw) = (ui, Returned (Some t))"
  shows "load_keuangan_data (Inr (drop_canonical ks raw)) = ([], Returned (Some (drop_columns ks t)))"
proof -
  from assms(1) have k: "''tanggal'' \<notin> set ks" "''Nama_Bulan'' \<notin> set ks" by auto
  from assms(2) have "keuangan_try (keuangan_columns (object_cells raw)) = Inr t"
    by (simp add: load_keuangan_data_Some)
  from keuangan_try_drop[OF this k] show ?thesis
    by (simp add: load_keuangan_data_Some keuangan_columns_drop_canonical)
qed

theorem optional_columns_are_skipped_witness:
  "set [''pemasukan'', ''jumlahair'', ''sopir''] \<subseteq> {''pemasukan'', ''pengeluaran'', ''jumlahair'', ''nopol'', ''sopir'', ''jenis transaksi''} \<and>
   load_keuangan_data (Inr (\<lparr>index = [0],
      cols = [(''Tanggal'', [Str ''15/03/2024'']), (''Pemasukan'', [Str ''Rp1.500.000'']),
              (''Volume (L)'', [Str ''Rp5.000'']), (''Sopir'', [Missing])]\<rparr>)) = ([], Returned (Some (\<lparr>index = [0],
      cols = [(''tanggal'', [Timestamp \<lparr>year = 2024, month = 3, day = 15\<rparr>]),
              (''pemasukan'', [Number (Fin 1500000)]),
              (''jumlahair'', [Number (Fin 5000)]),
              (''sopir'', [Text ''Tidak Diketahui'']),
              (''Nama_Bulan'', [Text ''2024-03 (March)''])]\<rparr>))) \<and>
   load_keuangan_data (Inr (drop_canonical [''pemasukan'', ''jumlahair'', ''sopir''] (\<lparr>index = [0],
      cols = [(''Tanggal'', [Str ''15/03/2024'']), (''Pemasukan'', [Str ''Rp1.500.000'']),
              (''Volume (L)'', [Str ''Rp5.000'']), (''Sopir'', [Missing])]\<rparr>))) =
     ([], Returned (Some (drop_columns [''pemasukan'', ''jumlahair'', ''sopir''] (\<lparr>index = [0],
      cols = [(''tanggal'', [Timestamp \<lparr>year = 2024, month = 3, day = 15\<rparr>]),
              (''pemasukan'', [Number (Fin 1500000)]),
              (''jumlahair'', [Number (Fin 5000)]),
              (''sopir'', [Text ''Tidak Diketahui'']),
              (''Nama_Bulan'', [Text ''2024-03 (March)''])]\<rparr>)))) \<and>
   drop_canonical [''pemasukan'', ''jumlahair'', ''sopir''] (\<lparr>index = [0],
      cols = [(''Tanggal'', [Str ''15/03/2024'']), (''Pemasukan'', [Str ''Rp1.500.000'']),
              (''Volume (L)'', [Str ''Rp5.000'']), (''Sopir'', [Missing])]\<rparr>) = \<lparr>index = [0], cols = [(''Tanggal'', [Str ''15/03/2024''])]\<rparr>"
proof -
  have k: "set [''pemasukan'', ''jumlahair'', ''sopir''] \<subseteq> {''pemasukan'', ''pengeluaran'', ''jumlahair'', ''nopol'', ''sopir'', ''jenis transaksi''}" by simp
  have e: "load_keuangan_data (Inr (\<lparr>index = [0],
      cols = [(''Tanggal'', [Str ''15/03/2024'']), (''Pemasukan'', [Str ''Rp1.500.000'']),
              (''Volume (L)'', [Str ''Rp5.000'']), (''Sopir'', [Missing])]\<rparr>)) = ([], Returned (Some (\<lparr>index = [0],
      cols = [(''tanggal'', [Timestamp \<lparr>year = 2024, month = 3, day = 15\<rparr>]),
              (''pemasukan'', [Number (Fin 1500000)]),
              (''jumlahair'', [Number (Fin 5000)]),
              (''sopir'', [Text ''Tidak Diketahui'']),
              (''Nama_Bulan'', [Text ''2024-03 (March)''])]\<rparr>)))"
    by (simp add: keuangan_defs frame_defs num_defs date_defs text_defs upt_rec)
  have d: "drop_canonical [''pemasukan'', ''jumlahair'', ''sopir''] (\<lparr>index = [0],
      cols = [(''Tanggal'', [Str ''15/03/2024'']), (''Pemasukan'', [Str ''Rp1.500.000'']),
              (''Volume (L)'', [Str ''Rp5.000'']), (''Sopir'', [Missing])]\<rparr>) = \<lparr>index = [0], cols = [(''Tanggal'', [Str ''15/03/2024''])]\<rparr>"
    by (simp add: drop_canonical_def canonical_def rename_label_def column_mapping_def text_defs)
  show ?thesis
    by (intro conjI k e d optional_columns_are_skipped[OF k e])
qed

end
